theory Spec2Isabelle
  imports Complex_Main "HOL-Library.Word"
begin

section \<open>JavaScript values used by the two tools\<close>

text \<open>
  The tool layer exports two asynchronous functions, \<open>run_mysql_query\<close> and
  \<open>generate_and_save_audio\<close>. Both talk to collaborators that are not part of the
  repository (the MySQL driver, \<open>fetch\<close>, the file system, \<open>uuid\<close>, \<open>Buffer\<close>); the
  embedding takes each collaborator as a field of an environment record and records
  every call made to it in a trace, so that "no database call" and "writes no file" are
  statements about the trace. An \<open>async\<close> function either resolves with a string or
  rejects with the thrown value: its outcome is a value of \<open>js_error + string\<close>, with
  \<open>Inl\<close> for the rejection.

  A JavaScript string is modelled as a \<open>string\<close> whose characters are the code units
  \<open>0x00\<close> to \<open>0xFF\<close> (Latin-1); code units above \<open>0xFF\<close> are outside the model.
\<close>

subsection \<open>Strings\<close>

text \<open>\<open>String.prototype.trim\<close> removes WhiteSpace and LineTerminator code units from
  both ends; below \<open>0x100\<close> these are TAB, LF, VT, FF, CR, SP and NBSP.\<close>

definition isWhiteSpace :: "char \<Rightarrow> bool" where
  "isWhiteSpace c = (of_char c \<in> {9, 10, 11, 12, 13, 32, 160 :: nat})"

definition trim :: "string \<Rightarrow> string" where
  "trim s = rev (dropWhile isWhiteSpace (rev (dropWhile isWhiteSpace s)))"

text \<open>\<open>String.prototype.toLowerCase\<close>: below \<open>0x100\<close> the upper-case code units are
  \<open>A\<close> to \<open>Z\<close> and \<open>0xC0\<close> to \<open>0xDE\<close> without \<open>0xD7\<close>; each is mapped to the code unit
  \<open>0x20\<close> higher. Bit 5 is clear in every one of them, so adding \<open>0x20\<close> sets it.\<close>

definition isUpperCase :: "char \<Rightarrow> bool" where
  "isUpperCase c =
     (let n = of_char c :: nat
      in (65 \<le> n \<and> n \<le> 90) \<or> (192 \<le> n \<and> n \<le> 214) \<or> (216 \<le> n \<and> n \<le> 222))"

definition toLowerCase_unit :: "char \<Rightarrow> char" where
  "toLowerCase_unit c =
     (if isUpperCase c
      then (case c of Char b0 b1 b2 b3 b4 b5 b6 b7 \<Rightarrow> Char b0 b1 b2 b3 b4 True b6 b7)
      else c)"

definition toLowerCase :: "string \<Rightarrow> string" where
  "toLowerCase s = map toLowerCase_unit s"

fun startsWith :: "string \<Rightarrow> string \<Rightarrow> bool" where
  "startsWith s [] = True"
| "startsWith [] (p # ps) = False"
| "startsWith (c # cs) (p # ps) = (c = p \<and> startsWith cs ps)"

text \<open>\<open>Array.prototype.join\<close>.\<close>

fun join :: "string \<Rightarrow> string list \<Rightarrow> string" where
  "join sep [] = []"
| "join sep [x] = x"
| "join sep (x # y # ys) = x @ sep @ join sep (y # ys)"

text \<open>Decimal rendering of an integer Number, as a template literal produces it.\<close>

fun string_of_nat :: "nat \<Rightarrow> string" where
  "string_of_nat n =
     (if n < 10 then [''0123456789'' ! n]
      else string_of_nat (n div 10) @ [''0123456789'' ! (n mod 10)])"

declare string_of_nat.simps [simp del]

definition string_of_int :: "int \<Rightarrow> string" where
  "string_of_int i = (if i < 0 then ''-'' @ string_of_nat (nat (- i)) else string_of_nat (nat i))"

subsection \<open>Thrown values\<close>

text \<open>Every value the collaborators throw is an \<open>Error\<close> object: it has a \<open>message\<close>,
  and the driver's errors carry a \<open>code\<close>.\<close>

record js_error =
  code :: "string option"
  message :: string

definition TypeError :: "string \<Rightarrow> js_error" where
  "TypeError msg = \<lparr>code = None, message = msg\<rparr>"


section \<open>The query tool\<close>

subsection \<open>The database collaborator\<close>

text \<open>
  A row is the list \<open>Object.entries(row)\<close> of the row object: column names with column
  values. The column values are JavaScript values of any kind (numbers, strings, \<open>null\<close>,
  \<open>Date\<close> and \<open>Buffer\<close> objects); their type \<open>'v\<close> is left open. The only thing the tool
  does with a column value is to interpolate it in a template literal, which converts
  it with the language's \<open>ToString\<close>. That conversion is not part of the repository: it is
  the field \<open>ToString\<close> of the environment, and every statement about the tool holds for
  whatever function it is. It yields a string (\<open>Inr\<close>) or throws a \<open>TypeError\<close> (\<open>Inl\<close>), as
  it does for an object that has no primitive value.
\<close>

type_synonym 'v row = "(string \<times> 'v) list"

text \<open>The first component of what \<open>connection.execute\<close> resolves with: a
  \<open>ResultSetHeader\<close> with its fields \<open>affectedRows\<close> and \<open>insertId\<close> for a statement
  that modifies data, an array of rows otherwise.\<close>

datatype 'v db_result = ResultSetHeader int int | Rows "'v row list"

record 'v database =
  createConnection :: "js_error option"
  execute :: "string \<Rightarrow> js_error + 'v db_result"
  connection_end :: "js_error option"
  ToString :: "'v \<Rightarrow> js_error + string"

text \<open>In \<open>createConnection\<close> and \<open>connection_end\<close>, \<open>None\<close> is the promise that
  resolves and \<open>Some e\<close> the one that rejects with \<open>e\<close>.\<close>

datatype db_call = CreateConnection | Execute string | End

subsection \<open>\<open>run_mysql_query\<close>\<close>

definition refusal :: string where
  "refusal = ''Only SELECT, DESCRIBE, INSERT and SHOW queries are allowed for security reasons.''"

definition no_results :: string where
  "no_results = ''Query executed successfully but returned no results. The table might be empty or your conditions did not match any records.''"

definition no_rows_affected :: string where
  "no_rows_affected = ''Query executed successfully but no rows were affected.''"

definition allowed :: "string \<Rightarrow> bool" where
  "allowed cleanQuery =
     (startsWith (toLowerCase cleanQuery) ''select'' \<or>
      startsWith (toLowerCase cleanQuery) ''describe'' \<or>
      startsWith (toLowerCase cleanQuery) ''insert'' \<or>
      startsWith (toLowerCase cleanQuery) ''show'')"

text \<open>\<open>Array.prototype.map\<close> with a callback that may throw: the first throw ends the
  loop.\<close>

fun map_throwing :: "('a \<Rightarrow> js_error + 'b) \<Rightarrow> 'a list \<Rightarrow> js_error + 'b list" where
  "map_throwing f [] = Inr []"
| "map_throwing f (x # xs) =
     (case f x of
        Inl error \<Rightarrow> Inl error
      | Inr y \<Rightarrow> (case map_throwing f xs of Inl error \<Rightarrow> Inl error | Inr ys \<Rightarrow> Inr (y # ys)))"

text \<open>The callback of both \<open>rows.map\<close> calls; \<open>index\<close> counts from 0, and \<open>to_string\<close> is
  the conversion that the template literal applies to \<open>value\<close>.\<close>

definition format_row ::
  "('v \<Rightarrow> js_error + string) \<Rightarrow> nat \<times> 'v row \<Rightarrow> js_error + string" where
  "format_row to_string = (\<lambda>(index, row).
     (case map_throwing
             (\<lambda>(key, val). case to_string val of
                               Inl error \<Rightarrow> Inl error
                             | Inr s \<Rightarrow> Inr (key @ '': '' @ s)) row of
        Inl error \<Rightarrow> Inl error
      | Inr cells \<Rightarrow>
          (let rowData = join '', '' cells
           in Inr (''Row '' @ string_of_nat (index + 1) @ '': {'' @ rowData @ ''}''))))"

definition format_rows ::
  "('v \<Rightarrow> js_error + string) \<Rightarrow> 'v row list \<Rightarrow> js_error + string" where
  "format_rows to_string rows =
     (case map_throwing (format_row to_string) (zip [0 ..< length rows] rows) of
        Inl error \<Rightarrow> Inl error
      | Inr lines \<Rightarrow> Inr (join ''\<newline>'' lines))"

text \<open>The rendering of a fetched array of rows (source lines 46 to 71).\<close>

definition render_rows ::
  "('v \<Rightarrow> js_error + string) \<Rightarrow> 'v row list \<Rightarrow> js_error + string" where
  "render_rows to_string rows =
     (if length rows = 0 then Inr no_results
      else if length rows \<le> 10 then
        (case format_rows to_string rows of
           Inl error \<Rightarrow> Inl error
         | Inr formattedRows \<Rightarrow>
             Inr (''Found '' @ string_of_nat (length rows) @ '' record(s):\<newline>''
                  @ formattedRows))
      else
        (case format_rows to_string (take 5 rows) of
           Inl error \<Rightarrow> Inl error
         | Inr sample \<Rightarrow>
             Inr (''Found '' @ string_of_nat (length rows) @ '' record(s). Showing first 5:\<newline>''
                  @ sample
                  @ ''\<newline>... and '' @ string_of_nat (length rows - 5) @ '' more records.'')))"

text \<open>
  The body of the \<open>try\<close> block after the connection is open: \<open>Inl\<close> is a throw, \<open>Inr\<close>
  a \<open>return\<close>. When the driver answers an \<open>insert\<close> with an array, both destructured
  fields are \<open>undefined\<close> and \<open>undefined > 0\<close> is false; when it answers another
  statement with a \<open>ResultSetHeader\<close>, \<open>rows.length\<close> is \<open>undefined\<close>, both
  comparisons are false and \<open>rows.slice\<close> is not callable.
\<close>

definition try_block :: "'v database \<Rightarrow> string \<Rightarrow> js_error + string" where
  "try_block db cleanQuery =
     (if startsWith (toLowerCase cleanQuery) ''insert'' then
        (case execute db cleanQuery of
           Inl error \<Rightarrow> Inl error
         | Inr (ResultSetHeader affectedRows insertId) \<Rightarrow>
             (if affectedRows > 0
              then Inr (''Query executed successfully. '' @ string_of_int affectedRows
                        @ '' row(s) affected. Insert ID: '' @ string_of_int insertId)
              else Inr no_rows_affected)
         | Inr (Rows rs) \<Rightarrow> Inr no_rows_affected)
      else
        (case execute db cleanQuery of
           Inl error \<Rightarrow> Inl error
         | Inr (Rows rows) \<Rightarrow> render_rows (ToString db) rows
         | Inr (ResultSetHeader a i) \<Rightarrow> Inl (TypeError ''rows.slice is not a function'')))"

definition catch_block :: "js_error \<Rightarrow> string" where
  "catch_block error =
     (if code error = Some ''ER_NO_SUCH_TABLE'' then
        ''Table not found. Please check the table name. Available tables might include: games, cards etc.''
      else if code error = Some ''ER_BAD_FIELD_ERROR'' then
        ''Column not found. Please check your column names. Use DESCRIBE tablename to see available columns.''
      else ''Database error: '' @ message error @ ''. Please check your SQL syntax.'')"

text \<open>
  The whole tool. The \<open>finally\<close> block runs after the \<open>try\<close> or \<open>catch\<close> block has
  produced its \<open>return\<close>; it awaits \<open>connection.end()\<close> when a connection exists, and a
  rejection of that promise replaces the pending \<open>return\<close>.
\<close>

definition run_mysql_query ::
  "'v database \<Rightarrow> string \<Rightarrow> db_call list \<times> (js_error + string)" where
  "run_mysql_query db query =
     (let cleanQuery = trim query
      in if allowed cleanQuery then
           (case createConnection db of
              Some error \<Rightarrow> ([CreateConnection], Inr (catch_block error))
            | None \<Rightarrow>
                (let returned = (case try_block db cleanQuery of
                                   Inl error \<Rightarrow> catch_block error
                                 | Inr s \<Rightarrow> s)
                 in (case connection_end db of
                       None \<Rightarrow> ([CreateConnection, Execute cleanQuery, End], Inr returned)
                     | Some error \<Rightarrow> ([CreateConnection, Execute cleanQuery, End], Inl error))))
         else ([], Inr refusal))"


section \<open>The speech tool\<close>

subsection \<open>Numbers and the \<open>DataView\<close>\<close>

text \<open>
  Every Number of \<open>generate_and_save_audio\<close> is a non-negative integer or such an
  integer divided by 8. They are modelled as exact rationals; IEEE doubles compute the
  same values as long as the integers involved stay below \<open>2^53\<close>, which holds for every
  sample rate below \<open>2^32\<close> with a bit depth below \<open>2^16\<close>. The theorems about the
  numeric fields of the header state these two bounds, or fix the sample rate and the
  bit depth.

  \<open>DataView.prototype.setUint32\<close> and \<open>setUint16\<close> convert their value with \<open>ToUint32\<close>
  and \<open>ToUint16\<close> (truncate towards zero, then reduce modulo the field's range), lay the
  result out in the requested byte order, and throw a \<open>RangeError\<close> when the field does
  not fit in the view.
\<close>

type_synonym byte = "8 word"

definition RangeError :: "string \<Rightarrow> js_error" where
  "RangeError msg = \<lparr>code = None, message = msg\<rparr>"

definition trunc :: "rat \<Rightarrow> int" where
  "trunc x = (if x < 0 then \<lceil>x\<rceil> else \<lfloor>x\<rfloor>)"

definition ToUint32 :: "rat \<Rightarrow> nat" where
  "ToUint32 x = nat (trunc x mod 2 ^ 32)"

definition ToUint16 :: "rat \<Rightarrow> nat" where
  "ToUint16 x = nat (trunc x mod 2 ^ 16)"

fun bytes_le :: "nat \<Rightarrow> nat \<Rightarrow> byte list" where
  "bytes_le 0 v = []"
| "bytes_le (Suc k) v = word_of_nat (v mod 256) # bytes_le k (v div 256)"

definition NumericToRawBytes :: "nat \<Rightarrow> nat \<Rightarrow> bool \<Rightarrow> byte list" where
  "NumericToRawBytes n v littleEndian =
     (if littleEndian then bytes_le n v else rev (bytes_le n v))"

definition SetViewValue :: "byte list \<Rightarrow> nat \<Rightarrow> byte list \<Rightarrow> js_error + byte list" where
  "SetViewValue view byteOffset raw =
     (if byteOffset + length raw \<le> length view
      then Inr (take byteOffset view @ raw @ drop (byteOffset + length raw) view)
      else Inl (RangeError ''Offset is outside the bounds of the DataView''))"

text \<open>A call \<open>view.setUint32(byteOffset, value, littleEndian)\<close> or \<open>view.setUint16(...)\<close>,
  and a sequence of such statements run on a view.\<close>

datatype view_call = setUint32 nat rat bool | setUint16 nat rat bool

fun apply_call :: "byte list \<Rightarrow> view_call \<Rightarrow> js_error + byte list" where
  "apply_call view (setUint32 byteOffset v littleEndian) =
     SetViewValue view byteOffset (NumericToRawBytes 4 (ToUint32 v) littleEndian)"
| "apply_call view (setUint16 byteOffset v littleEndian) =
     SetViewValue view byteOffset (NumericToRawBytes 2 (ToUint16 v) littleEndian)"

fun apply_calls :: "byte list \<Rightarrow> view_call list \<Rightarrow> js_error + byte list" where
  "apply_calls view [] = Inr view"
| "apply_calls view (c # cs) =
     (case apply_call view c of Inl e \<Rightarrow> Inl e | Inr view' \<Rightarrow> apply_calls view' cs)"

subsection \<open>The 44-byte header (source lines 151 to 177)\<close>

definition numChannels :: rat where
  "numChannels = 1"

definition bytesPerSample :: "nat \<Rightarrow> rat" where
  "bytesPerSample bitsPerSample = of_nat bitsPerSample / 8"

definition blockAlign :: "nat \<Rightarrow> rat" where
  "blockAlign bitsPerSample = numChannels * bytesPerSample bitsPerSample"

definition byteRate :: "nat \<Rightarrow> nat \<Rightarrow> rat" where
  "byteRate sampleRate bitsPerSample = of_nat sampleRate * blockAlign bitsPerSample"

definition wavHeader :: "nat \<Rightarrow> nat \<Rightarrow> nat \<Rightarrow> js_error + byte list" where
  "wavHeader sampleRate bitsPerSample dataSize =
     (let chunkSize = 36 + of_nat dataSize
      in apply_calls (replicate 44 0)
          [setUint32 0 0x52494646 False,
           setUint32 4 chunkSize True,
           setUint32 8 0x57415645 False,
           setUint32 12 0x666d7420 False,
           setUint32 16 16 True,
           setUint16 20 1 True,
           setUint16 22 numChannels True,
           setUint32 24 (of_nat sampleRate) True,
           setUint32 28 (byteRate sampleRate bitsPerSample) True,
           setUint16 32 (blockAlign bitsPerSample) True,
           setUint16 34 (of_nat bitsPerSample) True,
           setUint32 36 0x64617461 False,
           setUint32 40 (of_nat dataSize) True])"

subsection \<open>The synthesis response\<close>

text \<open>
  The JSON value \<open>response.json()\<close> resolves with, typed after the API's schema; every
  level may be missing, and \<open>None\<close> for the whole value is JSON \<open>null\<close>. Each \<open>?.\<close> of the
  source is an \<open>Option.bind\<close>, and \<open>xs?.[0]\<close> is \<open>first\<close>. A string is falsy when it is
  missing or empty.
\<close>

record inline_data =
  data :: "string option"
  mimeType :: "string option"

record part =
  inlineData :: "inline_data option"

record content =
  parts :: "part list option"

record candidate =
  content :: "content option"

record api_result =
  candidates :: "candidate list option"

definition first :: "'a list \<Rightarrow> 'a option" where
  "first xs = (case xs of [] \<Rightarrow> None | x # _ \<Rightarrow> Some x)"

definition falsy :: "string option \<Rightarrow> bool" where
  "falsy v = (case v of None \<Rightarrow> True | Some s \<Rightarrow> s = [])"

subsection \<open>Sample rate and bit depth (source lines 147 and 148)\<close>

text \<open>
  \<open>match_digits lit s\<close> is the capture group of the leftmost match of the regular
  expression \<open>lit(\d+)\<close> in \<open>s\<close>: the first position where \<open>lit\<close> is followed by a digit,
  and all the digits that follow it there. A match is a non-empty string, hence truthy,
  so the \<open>||\<close> default is taken exactly when there is no match. \<open>parseInt\<close> reads a
  string of decimal digits; the model yields the integer the digits denote, and the
  source the nearest double, which is that integer whenever it is below \<open>2^53\<close>. Every
  theorem that depends on a parsed value fixes it or bounds it below that.
\<close>

definition isDigit :: "char \<Rightarrow> bool" where
  "isDigit c = (c \<in> set ''0123456789'')"

fun match_digits :: "string \<Rightarrow> string \<Rightarrow> string option" where
  "match_digits lit [] = None"
| "match_digits lit (c # cs) =
     (let digits = takeWhile isDigit (drop (length lit) (c # cs))
      in if startsWith (c # cs) lit \<and> digits \<noteq> [] then Some digits
         else match_digits lit cs)"

definition digit_value :: "char \<Rightarrow> nat" where
  "digit_value c = of_char c - 48"

definition parseInt :: "string \<Rightarrow> nat" where
  "parseInt ds = foldl (\<lambda>acc c. 10 * acc + digit_value c) 0 ds"

definition derive_sampleRate :: "string \<Rightarrow> nat" where
  "derive_sampleRate descriptor =
     (case match_digits ''rate='' descriptor of Some ds \<Rightarrow> parseInt ds | None \<Rightarrow> 24000)"

definition derive_bitsPerSample :: "string \<Rightarrow> nat" where
  "derive_bitsPerSample descriptor =
     (case match_digits ''audio/L'' descriptor of Some ds \<Rightarrow> parseInt ds | None \<Rightarrow> 16)"

subsection \<open>\<open>generate_and_save_audio\<close>\<close>

text \<open>
  The collaborators: \<open>fs.mkdir\<close> and \<open>fs.writeFile\<close> resolve (\<open>None\<close>) or reject;
  \<open>fetch\<close>, given the text and the voice of the request body, rejects or resolves with a
  response whose \<open>json()\<close> rejects or resolves; \<open>Buffer.from(_, 'base64')\<close> decodes the
  payload; \<open>uuidv4()\<close> yields the identifier generated for this call. \<open>path.join\<close> is
  the POSIX one, for a file name without separators.
\<close>

record speech_env =
  mkdir :: "string \<Rightarrow> js_error option"
  fetch :: "string \<Rightarrow> string \<Rightarrow> js_error + (js_error + api_result option)"
  Buffer_from_base64 :: "string \<Rightarrow> byte list"
  uuidv4 :: string
  writeFile :: "string \<Rightarrow> byte list \<Rightarrow> js_error option"

datatype io_call = Mkdir string | Fetch string string | WriteFile string "byte list"

definition path_join :: "string \<Rightarrow> string \<Rightarrow> string" where
  "path_join dir fileName = dir @ ''/'' @ fileName"

definition first_part :: "api_result option \<Rightarrow> part option" where
  "first_part result =
     Option.bind (Option.bind (Option.bind (Option.bind (Option.bind result candidates) first)
       content) parts) first"

text \<open>Source lines 146 to 185: the steps after the check for a missing payload.\<close>

definition encode_and_save ::
  "speech_env \<Rightarrow> string \<Rightarrow> string \<Rightarrow> string \<Rightarrow> io_call list \<times> (js_error + string)" where
  "encode_and_save env outputDir audioData descriptor =
     (let sampleRate = derive_sampleRate descriptor;
          bitsPerSample = derive_bitsPerSample descriptor;
          pcmData = Buffer_from_base64 env audioData;
          dataSize = length pcmData
      in case wavHeader sampleRate bitsPerSample dataSize of
           Inl error \<Rightarrow> ([], Inl error)
         | Inr header \<Rightarrow>
             (let wavBuffer = header @ pcmData;
                  fileName = ''audio_output_'' @ uuidv4 env @ ''.wav'';
                  filePath = path_join outputDir fileName
              in case writeFile env filePath wavBuffer of
                   Some error \<Rightarrow> ([WriteFile filePath wavBuffer], Inl error)
                 | None \<Rightarrow> ([WriteFile filePath wavBuffer],
                             Inr (''Audio successfully saved to: '' @ filePath))))"

text \<open>The \<open>try\<close> block: the calls made, and a \<open>return\<close> (\<open>Inr\<close>) or a throw (\<open>Inl\<close>).
  Past the check \<open>!audioData || !mimeType\<close> both values are non-empty strings.\<close>

definition audio_try_block ::
  "speech_env \<Rightarrow> string \<Rightarrow> string \<Rightarrow> string \<Rightarrow> io_call list \<times> (js_error + string)" where
  "audio_try_block env outputDir text voice_name =
     (case mkdir env outputDir of
        Some error \<Rightarrow> ([Mkdir outputDir], Inl error)
      | None \<Rightarrow>
          (case fetch env text voice_name of
             Inl error \<Rightarrow> ([Mkdir outputDir, Fetch text voice_name], Inl error)
           | Inr (Inl error) \<Rightarrow> ([Mkdir outputDir, Fetch text voice_name], Inl error)
           | Inr (Inr result) \<Rightarrow>
               (let part = first_part result;
                    audioData = Option.bind (Option.bind part inlineData) data;
                    mimeType = Option.bind (Option.bind part inlineData) mimeType
                in if falsy audioData \<or> falsy mimeType
                   then ([Mkdir outputDir, Fetch text voice_name], Inr ''No audio data was returned.'')
                   else (let (calls, completion) =
                               encode_and_save env outputDir (the audioData) (the mimeType)
                         in ([Mkdir outputDir, Fetch text voice_name] @ calls, completion)))))"

text \<open>The tool: the \<open>catch\<close> block turns every throw into a returned string.\<close>

definition generate_and_save_audio ::
  "speech_env \<Rightarrow> string \<Rightarrow> string option \<Rightarrow> io_call list \<times> (js_error + string)" where
  "generate_and_save_audio env text voice_name_arg =
     (let voice_name = (case voice_name_arg of None \<Rightarrow> ''Charon'' | Some v \<Rightarrow> v);
          outputDir = ''sounds'';
          (calls, completion) = audio_try_block env outputDir text voice_name
      in (calls,
          Inr (case completion of
                 Inr returned \<Rightarrow> returned
               | Inl error \<Rightarrow> ''An error occurred during audio generation: '' @ message error)))"

subsection \<open>Readers used to state the layout of the file\<close>

text \<open>The unsigned little-endian integer held by a byte sequence, its readers at an
  offset of a buffer, and the bytes of an ASCII tag.\<close>

definition uint_le :: "byte list \<Rightarrow> nat" where
  "uint_le raw = foldr (\<lambda>b acc. unat b + 256 * acc) raw 0"

definition uint32_le_at :: "byte list \<Rightarrow> nat \<Rightarrow> nat" where
  "uint32_le_at buffer offset = uint_le (take 4 (drop offset buffer))"

definition uint16_le_at :: "byte list \<Rightarrow> nat \<Rightarrow> nat" where
  "uint16_le_at buffer offset = uint_le (take 2 (drop offset buffer))"

definition ascii :: "string \<Rightarrow> byte list" where
  "ascii s = map (\<lambda>c. word_of_nat (of_char c)) s"

subsection \<open>Environments used as concrete inputs\<close>

text \<open>A response with one audio part whose payload \<open>AQID\<close> is the base64 text of the
  bytes 1, 2, 3, and an environment in which every collaborator succeeds.\<close>

definition example_result :: "string \<Rightarrow> api_result option" where
  "example_result descriptor =
     Some \<lparr>candidates = Some [\<lparr>content = Some \<lparr>parts = Some
       [\<lparr>inlineData = Some \<lparr>data = Some ''AQID'', mimeType = Some descriptor\<rparr>\<rparr>]\<rparr>\<rparr>]\<rparr>"

definition example_env :: "api_result option \<Rightarrow> speech_env" where
  "example_env result =
     \<lparr>mkdir = (\<lambda>dir. None),
      fetch = (\<lambda>text voice. Inr (Inr result)),
      Buffer_from_base64 = (\<lambda>s. if s = ''AQID'' then [1, 2, 3] else []),
      uuidv4 = ''110ec58a-a0f2-4ac4-8393-c866d813b8d1'',
      writeFile = (\<lambda>filePath buffer. None)\<rparr>"


text \<open>A response whose only part is a text part.\<close>

definition text_only_result :: "api_result option" where
  "text_only_result =
     Some \<lparr>candidates = Some [\<lparr>content = Some \<lparr>parts = Some [\<lparr>inlineData = None\<rparr>]\<rparr>\<rparr>]\<rparr>"


section \<open>Concrete inputs and the specification's own notions\<close>

subsection \<open>Databases used as concrete inputs\<close>

text \<open>The concrete databases hold string-valued columns only; \<open>ToString\<close> of a string
  yields the string itself.\<close>

definition db_answering :: "string db_result \<Rightarrow> string database" where
  "db_answering r =
     \<lparr>createConnection = None, execute = (\<lambda>q. Inr r), connection_end = None,
      ToString = Inr\<rparr>"

definition db_raising :: "js_error \<Rightarrow> string database" where
  "db_raising e =
     \<lparr>createConnection = None, execute = (\<lambda>q. Inl e), connection_end = None,
      ToString = Inr\<rparr>"

definition ER_PARSE_ERROR :: js_error where
  "ER_PARSE_ERROR = \<lparr>code = Some ''ER_PARSE_ERROR'', message = ''You have an error in your SQL syntax''\<rparr>"

definition db_end_failing :: "string db_result \<Rightarrow> js_error \<Rightarrow> string database" where
  "db_end_failing r e =
     \<lparr>createConnection = None, execute = (\<lambda>q. Inr r), connection_end = Some e,
      ToString = Inr\<rparr>"

definition PROTOCOL_CONNECTION_LOST :: js_error where
  "PROTOCOL_CONNECTION_LOST =
     \<lparr>code = Some ''PROTOCOL_CONNECTION_LOST'', message = ''Connection lost: The server closed the connection.''\<rparr>"


text \<open>A result set of eleven rows with one string-valued column.\<close>

definition eleven_rows :: "string row list" where
  "eleven_rows = [[(''cardName'', ''f1'')], [(''cardName'', ''f2'')], [(''cardName'', ''f3'')],
     [(''cardName'', ''f4'')], [(''cardName'', ''f5'')], [(''cardName'', ''f6'')],
     [(''cardName'', ''f7'')], [(''cardName'', ''f8'')], [(''cardName'', ''f9'')],
     [(''cardName'', ''f10'')], [(''cardName'', ''f11'')]]"

subsection \<open>The specification's reading of the allow-list and of a rendered row\<close>

text \<open>
  The specification speaks of the statement's "lowercase leading token": the first
  whitespace-delimited word of the trimmed, lower-cased statement. This definition
  follows the specification's words and is compared with \<open>allowed\<close>, which follows the
  source.
\<close>

definition spec_leading_token :: "string \<Rightarrow> string" where
  "spec_leading_token statement =
     takeWhile (\<lambda>c. \<not> isWhiteSpace c) (toLowerCase (trim statement))"


text \<open>\<open>String.prototype.includes\<close>.\<close>

fun js_includes :: "string \<Rightarrow> string \<Rightarrow> bool" where
  "js_includes [] p = (p = [])"
| "js_includes (c # cs) p = (startsWith (c # cs) p \<or> js_includes cs p)"

text \<open>
  The specification's row format \<open>Row i: {col: val, col: val, ...}\<close>, written from
  its words, for the row numbered \<open>i\<close>; each \<open>val\<close> is the string \<open>str\<close> gives for the
  column value.
\<close>

definition spec_row_line :: "('v \<Rightarrow> string) \<Rightarrow> nat \<Rightarrow> 'v row \<Rightarrow> string" where
  "spec_row_line str i r =
     ''Row '' @ string_of_nat i @ '': {''
       @ join '', '' (map (\<lambda>(col, val). col @ '': '' @ str val) r) @ ''}''"


section \<open>Properties of the query tool\<close>

subsection \<open>Lower-casing adds \<open>0x20\<close> to an upper-case code unit\<close>

lemma toLowerCase_unit_code_unit:
  "of_char (toLowerCase_unit c) = (if isUpperCase c then of_char c + 32 else (of_char c :: nat))"
proof (cases c)
  case (Char b0 b1 b2 b3 b4 b5 b6 b7)
  then show ?thesis
    by (cases b0; cases b1; cases b2; cases b3; cases b4; cases b5; cases b6; cases b7)
       (simp_all add: toLowerCase_unit_def isUpperCase_def)
qed

subsection \<open>The allow-list\<close>

lemma startsWith_takeWhile: "startsWith s (takeWhile P s)"
  by (induction s) simp_all

lemma spec_leading_token_allowed:
  "spec_leading_token statement \<in> {''select'', ''describe'', ''insert'', ''show''}
   \<Longrightarrow> allowed (trim statement)"
  unfolding allowed_def spec_leading_token_def
  using startsWith_takeWhile [of "toLowerCase (trim statement)" "\<lambda>c. \<not> isWhiteSpace c"]
  by auto

text \<open>
  C1, as stated: every statement whose lower-cased leading token is not one of
  \<open>select\<close>, \<open>describe\<close>, \<open>insert\<close>, \<open>show\<close> is refused without a database call. The
  source tests prefixes, not tokens: the leading token of \<open>showdown\<close> is \<open>showdown\<close>, which
  is none of the four words, yet the statement starts with \<open>show\<close>, so a connection is
  opened and the statement is executed.
\<close>

theorem leading_token_counterexample:
  "spec_leading_token ''showdown'' \<notin> {''select'', ''describe'', ''insert'', ''show''} \<and>
   run_mysql_query (db_raising ER_PARSE_ERROR) ''showdown'' =
     ([CreateConnection, Execute ''showdown'', End],
      Inr ''Database error: You have an error in your SQL syntax. Please check your SQL syntax.'')"
  by (simp add: spec_leading_token_def run_mysql_query_def allowed_def try_block_def
      catch_block_def db_raising_def ER_PARSE_ERROR_def trim_def toLowerCase_def
      toLowerCase_unit_def isUpperCase_def isWhiteSpace_def)

text \<open>
  C1, amended: every statement whose trimmed, lower-cased text does not start with
  \<open>select\<close>, \<open>describe\<close>, \<open>insert\<close> or \<open>show\<close> gets the fixed refusal string, and no call
  is made to the database: no connection is opened and nothing is executed.
\<close>

theorem refusal_without_database_call:
  assumes "\<not> startsWith (toLowerCase (trim query)) ''select''"
    and "\<not> startsWith (toLowerCase (trim query)) ''describe''"
    and "\<not> startsWith (toLowerCase (trim query)) ''insert''"
    and "\<not> startsWith (toLowerCase (trim query)) ''show''"
  shows "run_mysql_query db query =
    ([], Inr ''Only SELECT, DESCRIBE, INSERT and SHOW queries are allowed for security reasons.'')"
  using assms by (simp add: run_mysql_query_def allowed_def refusal_def)

theorem refusal_without_database_call_witness:
  "\<not> startsWith (toLowerCase (trim ''  DROP TABLE cards; '')) ''select'' \<and>
   \<not> startsWith (toLowerCase (trim ''  DROP TABLE cards; '')) ''describe'' \<and>
   \<not> startsWith (toLowerCase (trim ''  DROP TABLE cards; '')) ''insert'' \<and>
   \<not> startsWith (toLowerCase (trim ''  DROP TABLE cards; '')) ''show'' \<and>
   run_mysql_query (db_answering (Rows [])) ''  DROP TABLE cards; '' =
    ([], Inr ''Only SELECT, DESCRIBE, INSERT and SHOW queries are allowed for security reasons.'')"
proof -
  have lower: "toLowerCase (trim ''  DROP TABLE cards; '') = ''drop table cards;''"
    by (simp add: trim_def toLowerCase_def toLowerCase_unit_def isUpperCase_def isWhiteSpace_def)
  have h1: "\<not> startsWith (toLowerCase (trim ''  DROP TABLE cards; '')) ''select''"
    and h2: "\<not> startsWith (toLowerCase (trim ''  DROP TABLE cards; '')) ''describe''"
    and h3: "\<not> startsWith (toLowerCase (trim ''  DROP TABLE cards; '')) ''insert''"
    and h4: "\<not> startsWith (toLowerCase (trim ''  DROP TABLE cards; '')) ''show''"
    unfolding lower by simp_all
  from refusal_without_database_call [OF h1 h2 h3 h4, of "db_answering (Rows [])"] h1 h2 h3 h4
  show ?thesis by blast
qed

subsection \<open>Rendering of a result set\<close>

lemma zip_upt_nth: "zip [0 ..< length xs] xs = map (\<lambda>i. (i, xs ! i)) [0 ..< length xs]"
  by (rule nth_equalityI) simp_all

lemma map_throwing_Inr:
  "list_all (\<lambda>x. f x = Inr (g x)) xs \<Longrightarrow> map_throwing f xs = Inr (map g xs)"
  by (induction xs) simp_all

lemma format_row_converted:
  assumes "list_all (\<lambda>(col, val). to_string val = Inr (str val)) row"
  shows "format_row to_string (index, row) = Inr (spec_row_line str (index + 1) row)"
proof -
  have "list_all (\<lambda>x. (case x of (key, val) \<Rightarrow> case to_string val of
                               Inl error \<Rightarrow> Inl error
                             | Inr s \<Rightarrow> Inr (key @ '': '' @ s))
          = Inr ((\<lambda>(col, val). col @ '': '' @ str val) x)) row"
    using assms by (auto simp: list_all_iff)
  from map_throwing_Inr [OF this] show ?thesis
    by (simp add: format_row_def spec_row_line_def)
qed

lemma format_rows_converted:
  assumes "list_all (list_all (\<lambda>(col, val). to_string val = Inr (str val))) rows"
  shows "format_rows to_string rows =
     Inr (join ''\<newline>'' (map (\<lambda>i. spec_row_line str (i + 1) (rows ! i)) [0 ..< length rows]))"
proof -
  have "list_all (\<lambda>p. format_row to_string p = Inr ((\<lambda>(i, r). spec_row_line str (i + 1) r) p))
          (zip [0 ..< length rows] rows)"
    unfolding list_all_iff
  proof
    fix p
    assume mem: "p \<in> set (zip [0 ..< length rows] rows)"
    obtain i r where p: "p = (i, r)" by (cases p)
    with mem have "r \<in> set rows" by (auto dest: set_zip_rightD)
    with assms have "list_all (\<lambda>(col, val). to_string val = Inr (str val)) r"
      by (simp add: list_all_iff)
    from format_row_converted [OF this, of i] p
    show "format_row to_string p = Inr ((\<lambda>(i, r). spec_row_line str (i + 1) r) p)"
      by simp
  qed
  from map_throwing_Inr [OF this] show ?thesis
    by (simp add: format_rows_def zip_upt_nth comp_def)
qed

lemma format_rows_take_converted:
  assumes "5 \<le> length rows"
    and "list_all (list_all (\<lambda>(col, val). to_string val = Inr (str val))) (take 5 rows)"
  shows "format_rows to_string (take 5 rows) =
     Inr (join ''\<newline>'' (map (\<lambda>i. spec_row_line str (i + 1) (rows ! i)) [0 ..< 5]))"
proof -
  have len: "length (take 5 rows) = 5" using assms(1) by simp
  have eq: "map (\<lambda>i. spec_row_line str (i + 1) (take 5 rows ! i)) [0 ..< 5]
      = map (\<lambda>i. spec_row_line str (i + 1) (rows ! i)) [0 ..< 5]"
    by (intro map_cong refl) simp
  show ?thesis unfolding format_rows_converted [OF assms(2)] len eq ..
qed

lemma upt_0_5: "[0 ..< 5] = [0, 1, 2, 3, 4]"
  by code_simp

lemma select_not_insert: "startsWith s ''select'' \<Longrightarrow> \<not> startsWith s ''insert''"
  by (cases s) auto

lemma describe_not_insert: "startsWith s ''describe'' \<Longrightarrow> \<not> startsWith s ''insert''"
  by (cases s) auto

lemma show_not_insert: "startsWith s ''show'' \<Longrightarrow> \<not> startsWith s ''insert''"
  by (cases s) auto

lemma render_rows_spec:
  assumes "list_all (list_all (\<lambda>(col, val). to_string val = Inr (str val)))
             (if length rows \<le> 10 then rows else take 5 rows)"
  shows "render_rows to_string rows =
     Inr (if length rows = 0 then
        ''Query executed successfully but returned no results. The table might be empty or your conditions did not match any records.''
      else if length rows \<le> 10 then
        ''Found '' @ string_of_nat (length rows) @ '' record(s):\<newline>''
          @ join ''\<newline>'' (map (\<lambda>i. spec_row_line str (i + 1) (rows ! i)) [0 ..< length rows])
      else
        ''Found '' @ string_of_nat (length rows) @ '' record(s). Showing first 5:\<newline>''
          @ join ''\<newline>'' (map (\<lambda>i. spec_row_line str (i + 1) (rows ! i)) [0 ..< 5])
          @ ''\<newline>... and '' @ string_of_nat (length rows - 5) @ '' more records.'')"
proof -
  consider "length rows = 0" | "0 < length rows" "length rows \<le> 10" | "10 < length rows"
    by linarith
  then show ?thesis
  proof cases
    case 1
    then show ?thesis by (simp add: render_rows_def no_results_def)
  next
    case 2
    with assms have "list_all (list_all (\<lambda>(col, val). to_string val = Inr (str val))) rows"
      by simp
    from format_rows_converted [OF this] 2 show ?thesis by (simp add: render_rows_def)
  next
    case 3
    then have five: "5 \<le> length rows" by simp
    from assms 3
    have "list_all (list_all (\<lambda>(col, val). to_string val = Inr (str val))) (take 5 rows)"
      by simp
    from format_rows_take_converted [OF five this] 3 show ?thesis
      by (simp add: render_rows_def no_results_def)
  qed
qed

text \<open>A conversion that throws while the rows are rendered is caught like an error of the
  driver: the tool returns the string of the \<open>catch\<close> block.\<close>

lemma render_rows_throws:
  assumes "startsWith (toLowerCase (trim query)) ''select'' \<or>
           startsWith (toLowerCase (trim query)) ''describe'' \<or>
           startsWith (toLowerCase (trim query)) ''show''"
    and "createConnection db = None"
    and "execute db (trim query) = Inr (Rows rows)"
    and "connection_end db = None"
    and "render_rows (ToString db) rows = Inl e"
  shows "run_mysql_query db query =
     ([CreateConnection, Execute (trim query), End], Inr (catch_block e))"
proof -
  from assms(1) have ok: "allowed (trim query)"
    and ni: "\<not> startsWith (toLowerCase (trim query)) ''insert''"
    using select_not_insert describe_not_insert show_not_insert
    by (auto simp: allowed_def)
  show ?thesis
    using ok ni assms(2-5) by (simp add: run_mysql_query_def try_block_def)
qed

text \<open>The renderings of no row, of five rows and of ten rows.\<close>

lemma render_rows_examples:
  "render_rows to_string [] = Inr ''Query executed successfully but returned no results. The table might be empty or your conditions did not match any records.''"
  "render_rows Inr (take 5 eleven_rows) = Inr ''Found 5 record(s):\<newline>Row 1: {cardName: f1}\<newline>Row 2: {cardName: f2}\<newline>Row 3: {cardName: f3}\<newline>Row 4: {cardName: f4}\<newline>Row 5: {cardName: f5}''"
  "render_rows Inr (take 10 eleven_rows) = Inr ''Found 10 record(s):\<newline>Row 1: {cardName: f1}\<newline>Row 2: {cardName: f2}\<newline>Row 3: {cardName: f3}\<newline>Row 4: {cardName: f4}\<newline>Row 5: {cardName: f5}\<newline>Row 6: {cardName: f6}\<newline>Row 7: {cardName: f7}\<newline>Row 8: {cardName: f8}\<newline>Row 9: {cardName: f9}\<newline>Row 10: {cardName: f10}''"
  by (simp_all add: render_rows_def no_results_def eleven_rows_def format_rows_def format_row_def
      string_of_nat.simps string_of_int_def)

text \<open>
  C4, amended: for a \<open>select\<close>, \<open>describe\<close> or \<open>show\<close> statement whose execution
  fetches \<open>N\<close> rows, the result is the fixed no-results string when \<open>N = 0\<close>; for
  \<open>1 \<le> N \<le> 10\<close> it is \<open>Found N record(s):\<close> followed by every row in retrieval order,
  each rendered as \<open>Row i: {col: val, col: val, ...}\<close> with \<open>i\<close> counting from 1, joined by
  newlines; for \<open>N > 10\<close> it is \<open>Found N record(s). Showing first 5:\<close>, exactly the first
  five rows in the same format, and the line \<open>... and N - 5 more records.\<close>, which for
  \<open>N = 11\<close> reads \<open>... and 6 more records.\<close> with a space after the dots. Each \<open>val\<close> is
  the string that the template literal converts the column value to, whatever kind of
  value it is; the statement is about result sets whose rendered values all have such a
  string (when a conversion throws, \<open>render_rows_throws\<close> applies). The rows are a
  JavaScript array, whose length is below \<open>2^32\<close>; the theorem states that bound, under
  which the decimal digits of the counts are what the template literal prints.
\<close>

theorem select_result_rendering:
  assumes "startsWith (toLowerCase (trim query)) ''select'' \<or>
           startsWith (toLowerCase (trim query)) ''describe'' \<or>
           startsWith (toLowerCase (trim query)) ''show''"
    and "createConnection db = None"
    and "execute db (trim query) = Inr (Rows rows)"
    and "connection_end db = None"
    and "length rows < 2 ^ 32"
    and "list_all (list_all (\<lambda>(col, val). ToString db val = Inr (str val)))
           (if length rows \<le> 10 then rows else take 5 rows)"
  shows "run_mysql_query db query =
     ([CreateConnection, Execute (trim query), End],
      Inr (if length rows = 0 then
             ''Query executed successfully but returned no results. The table might be empty or your conditions did not match any records.''
           else if length rows \<le> 10 then
             ''Found '' @ string_of_nat (length rows) @ '' record(s):\<newline>''
               @ join ''\<newline>'' (map (\<lambda>i. spec_row_line str (i + 1) (rows ! i)) [0 ..< length rows])
           else
             ''Found '' @ string_of_nat (length rows) @ '' record(s). Showing first 5:\<newline>''
               @ join ''\<newline>'' (map (\<lambda>i. spec_row_line str (i + 1) (rows ! i)) [0 ..< 5])
               @ ''\<newline>... and '' @ string_of_nat (length rows - 5) @ '' more records.''))"
proof -
  from assms(1) have ok: "allowed (trim query)"
    and ni: "\<not> startsWith (toLowerCase (trim query)) ''insert''"
    using select_not_insert describe_not_insert show_not_insert
    by (auto simp: allowed_def)
  note rendered = render_rows_spec [OF assms(6)]
  have "run_mysql_query db query =
      ([CreateConnection, Execute (trim query), End],
       Inr (case render_rows (ToString db) rows of Inl error \<Rightarrow> catch_block error | Inr s \<Rightarrow> s))"
    using ok ni assms(2-4) by (simp add: run_mysql_query_def try_block_def)
  then show ?thesis by (simp only: rendered sum.case)
qed

theorem select_result_rendering_witness:
  "(startsWith (toLowerCase (trim ''SELECT * FROM cards'')) ''select'' \<or>
    startsWith (toLowerCase (trim ''SELECT * FROM cards'')) ''describe'' \<or>
    startsWith (toLowerCase (trim ''SELECT * FROM cards'')) ''show'') \<and>
   createConnection (db_answering (Rows eleven_rows)) = None \<and>
   execute (db_answering (Rows eleven_rows)) (trim ''SELECT * FROM cards'') = Inr (Rows eleven_rows) \<and>
   connection_end (db_answering (Rows eleven_rows)) = None \<and>
   length eleven_rows < 2 ^ 32 \<and>
   list_all (list_all (\<lambda>(col, val). ToString (db_answering (Rows eleven_rows)) val = Inr val))
     (if length eleven_rows \<le> 10 then eleven_rows else take 5 eleven_rows) \<and>
   run_mysql_query (db_answering (Rows eleven_rows)) ''SELECT * FROM cards'' =
     ([CreateConnection, Execute ''SELECT * FROM cards'', End],
      Inr ''Found 11 record(s). Showing first 5:\<newline>Row 1: {cardName: f1}\<newline>Row 2: {cardName: f2}\<newline>Row 3: {cardName: f3}\<newline>Row 4: {cardName: f4}\<newline>Row 5: {cardName: f5}\<newline>... and 6 more records.'')"
proof -
  have t: "trim ''SELECT * FROM cards'' = ''SELECT * FROM cards''"
    by (simp add: trim_def isWhiteSpace_def)
  have h1: "startsWith (toLowerCase (trim ''SELECT * FROM cards'')) ''select'' \<or>
    startsWith (toLowerCase (trim ''SELECT * FROM cards'')) ''describe'' \<or>
    startsWith (toLowerCase (trim ''SELECT * FROM cards'')) ''show''"
    unfolding t by (simp add: toLowerCase_def toLowerCase_unit_def isUpperCase_def)
  have h2: "createConnection (db_answering (Rows eleven_rows)) = None"
    and h3: "execute (db_answering (Rows eleven_rows)) (trim ''SELECT * FROM cards'') = Inr (Rows eleven_rows)"
    and h4: "connection_end (db_answering (Rows eleven_rows)) = None"
    by (simp_all add: db_answering_def)
  have len: "length eleven_rows = 11" by (simp add: eleven_rows_def)
  have h5: "length eleven_rows < 2 ^ 32" by (simp add: len)
  have h6: "list_all (list_all (\<lambda>(col, val). ToString (db_answering (Rows eleven_rows)) val = Inr val))
     (if length eleven_rows \<le> 10 then eleven_rows else take 5 eleven_rows)"
    by (simp add: db_answering_def eleven_rows_def)
  have "run_mysql_query (db_answering (Rows eleven_rows)) ''SELECT * FROM cards'' =
     ([CreateConnection, Execute ''SELECT * FROM cards'', End],
      Inr ''Found 11 record(s). Showing first 5:\<newline>Row 1: {cardName: f1}\<newline>Row 2: {cardName: f2}\<newline>Row 3: {cardName: f3}\<newline>Row 4: {cardName: f4}\<newline>Row 5: {cardName: f5}\<newline>... and 6 more records.'')"
    unfolding select_result_rendering [OF h1 h2 h3 h4 h5 h6] len t
    by (simp add: upt_0_5 eleven_rows_def spec_row_line_def string_of_nat.simps string_of_int_def)
  with h1 h2 h3 h4 h5 h6 show ?thesis by blast
qed

text \<open>
  C4, as stated, says that eleven rows are shown as five rows plus
  \<open>...and 6 more records.\<close> The source puts a space after the three dots, so the text the
  claim quotes does not occur anywhere in the result.
\<close>

theorem more_records_counterexample:
  "snd (run_mysql_query (db_answering (Rows eleven_rows)) ''SELECT * FROM cards'') =
     Inr ''Found 11 record(s). Showing first 5:\<newline>Row 1: {cardName: f1}\<newline>Row 2: {cardName: f2}\<newline>Row 3: {cardName: f3}\<newline>Row 4: {cardName: f4}\<newline>Row 5: {cardName: f5}\<newline>... and 6 more records.'' \<and>
   \<not> js_includes ''Found 11 record(s). Showing first 5:\<newline>Row 1: {cardName: f1}\<newline>Row 2: {cardName: f2}\<newline>Row 3: {cardName: f3}\<newline>Row 4: {cardName: f4}\<newline>Row 5: {cardName: f5}\<newline>... and 6 more records.''
        ''...and 6 more records.''"
  by (simp add: run_mysql_query_def allowed_def try_block_def db_answering_def trim_def
      isWhiteSpace_def toLowerCase_def toLowerCase_unit_def isUpperCase_def render_rows_def
      eleven_rows_def format_rows_def format_row_def string_of_nat.simps string_of_int_def)

subsection \<open>Outcomes of an \<open>insert\<close>\<close>


lemma caught_exception_result:
  assumes "allowed (trim query)"
    and "createConnection db = Some e \<or>
         (createConnection db = None \<and> execute db (trim query) = Inl e \<and> connection_end db = None)"
  shows "snd (run_mysql_query db query) = Inr (catch_block e)"
  using assms by (auto simp: run_mysql_query_def try_block_def Let_def)



section \<open>Properties of the speech tool\<close>

subsection \<open>The bytes of the header\<close>

lemma length_bytes_le [simp]: "length (bytes_le k v) = k"
  by (induction k arbitrary: v) simp_all

lemma bytes_le_unfold:
  "0 < k \<Longrightarrow> bytes_le k v = word_of_nat (v mod 256) # bytes_le (k - 1) (v div 256)"
  by (cases k) simp_all

lemma tags:
  "rev (bytes_le 4 0x52494646) = [0x52, 0x49, 0x46, 0x46]"
  "rev (bytes_le 4 0x57415645) = [0x57, 0x41, 0x56, 0x45]"
  "rev (bytes_le 4 0x666d7420) = [0x66, 0x6d, 0x74, 0x20]"
  "rev (bytes_le 4 0x64617461) = [0x64, 0x61, 0x74, 0x61]"
  by (simp_all add: bytes_le_unfold)

lemma ToUint_consts:
  "ToUint32 0x52494646 = 0x52494646" "ToUint32 0x57415645 = 0x57415645"
  "ToUint32 0x666d7420 = 0x666d7420" "ToUint32 0x64617461 = 0x64617461"
  "ToUint32 16 = 16" "ToUint16 1 = 1"
  by (simp_all add: ToUint32_def ToUint16_def trunc_def)

lemma wavHeader_bytes:
  "wavHeader sampleRate bitsPerSample dataSize =
     Inr ([0x52, 0x49, 0x46, 0x46] @ bytes_le 4 (ToUint32 (36 + of_nat dataSize))
          @ [0x57, 0x41, 0x56, 0x45] @ [0x66, 0x6d, 0x74, 0x20]
          @ bytes_le 4 16 @ bytes_le 2 1 @ bytes_le 2 1
          @ bytes_le 4 (ToUint32 (of_nat sampleRate))
          @ bytes_le 4 (ToUint32 (byteRate sampleRate bitsPerSample))
          @ bytes_le 2 (ToUint16 (blockAlign bitsPerSample))
          @ bytes_le 2 (ToUint16 (of_nat bitsPerSample))
          @ [0x64, 0x61, 0x74, 0x61] @ bytes_le 4 (ToUint32 (of_nat dataSize)))"
  by (simp add: wavHeader_def SetViewValue_def NumericToRawBytes_def tags ToUint_consts numChannels_def)

lemma uint_le_bytes_le: "uint_le (bytes_le k v) = v mod 256 ^ k"
proof (induction k arbitrary: v)
  case 0
  show ?case by (simp add: uint_le_def)
next
  case (Suc k)
  have "uint_le (bytes_le (Suc k) v) = v mod 256 + 256 * uint_le (bytes_le k (v div 256))"
    by (simp add: uint_le_def unat_of_nat)
  also have "\<dots> = v mod 256 + 256 * (v div 256 mod 256 ^ k)"
    by (simp only: Suc.IH)
  also have "\<dots> = v mod 256 ^ Suc k"
    by (simp add: mod_mult2_eq)
  finally show ?case .
qed

lemma trunc_of_nat: "trunc (of_nat n) = int n"
  by (simp add: trunc_def)

lemma ToUint32_of_nat: "ToUint32 (of_nat n) = n mod 2 ^ 32"
  by (simp add: ToUint32_def trunc_of_nat nat_mod_distrib)

lemma ToUint16_of_nat: "ToUint16 (of_nat n) = n mod 2 ^ 16"
  by (simp add: ToUint16_def trunc_of_nat nat_mod_distrib)

lemma chunkSize_of_nat: "(36 :: rat) + of_nat n = of_nat (36 + n)"
  by simp

lemma blockAlign_floor: "trunc (blockAlign bits) = int (bits div 8)"
  using floor_divide_of_nat_eq [of bits 8, where ?'a = rat]
  by (simp add: blockAlign_def bytesPerSample_def numChannels_def trunc_def)

lemma byteRate_floor: "trunc (byteRate sr bits) = int (sr * bits div 8)"
proof -
  have "byteRate sr bits = of_nat (sr * bits) / of_nat 8"
    by (simp add: byteRate_def blockAlign_def bytesPerSample_def numChannels_def)
  moreover have "\<not> (of_nat (sr * bits) / of_nat 8 :: rat) < 0"
    by (simp only: not_less divide_nonneg_nonneg of_nat_0_le_iff)
  ultimately show ?thesis
    by (simp only: trunc_def floor_divide_of_nat_eq if_False)
qed

lemma ToUint16_blockAlign: "ToUint16 (blockAlign bits) = bits div 8 mod 2 ^ 16"
  by (simp add: ToUint16_def blockAlign_floor nat_mod_distrib)

lemma ToUint32_byteRate: "ToUint32 (byteRate sr bits) = sr * bits div 8 mod 2 ^ 32"
  by (simp add: ToUint32_def byteRate_floor nat_mod_distrib)

lemma ascii_tags:
  "ascii ''RIFF'' = [0x52, 0x49, 0x46, 0x46]" "ascii ''WAVE'' = [0x57, 0x41, 0x56, 0x45]"
  "ascii ''fmt '' = [0x66, 0x6d, 0x74, 0x20]" "ascii ''data'' = [0x64, 0x61, 0x74, 0x61]"
  by (simp_all add: ascii_def)

text \<open>What the header holds, for every derived sample rate and bit depth.\<close>

lemma wavHeader_fields:
  assumes "wavHeader sampleRate bitsPerSample dataSize = Inr header"
  shows "length header = 44"
    and "take 4 header = ascii ''RIFF''"
    and "uint32_le_at header 4 = (36 + dataSize) mod 2 ^ 32"
    and "take 4 (drop 8 header) = ascii ''WAVE''"
    and "take 4 (drop 12 header) = ascii ''fmt ''"
    and "uint32_le_at header 16 = 16"
    and "uint16_le_at header 20 = 1"
    and "uint16_le_at header 22 = 1"
    and "uint32_le_at header 24 = sampleRate mod 2 ^ 32"
    and "uint32_le_at header 28 = sampleRate * bitsPerSample div 8 mod 2 ^ 32"
    and "uint16_le_at header 32 = bitsPerSample div 8 mod 2 ^ 16"
    and "uint16_le_at header 34 = bitsPerSample mod 2 ^ 16"
    and "take 4 (drop 36 header) = ascii ''data''"
    and "uint32_le_at header 40 = dataSize mod 2 ^ 32"
proof -
  from assms have h: "header =
     [0x52, 0x49, 0x46, 0x46] @ bytes_le 4 ((36 + dataSize) mod 2 ^ 32)
          @ [0x57, 0x41, 0x56, 0x45] @ [0x66, 0x6d, 0x74, 0x20]
          @ bytes_le 4 16 @ bytes_le 2 1 @ bytes_le 2 1
          @ bytes_le 4 (sampleRate mod 2 ^ 32)
          @ bytes_le 4 (sampleRate * bitsPerSample div 8 mod 2 ^ 32)
          @ bytes_le 2 (bitsPerSample div 8 mod 2 ^ 16)
          @ bytes_le 2 (bitsPerSample mod 2 ^ 16)
          @ [0x64, 0x61, 0x74, 0x61] @ bytes_le 4 (dataSize mod 2 ^ 32)"
    unfolding wavHeader_bytes
    by (simp only: sum.inject chunkSize_of_nat ToUint32_of_nat ToUint16_of_nat
        ToUint16_blockAlign ToUint32_byteRate)
  show "length header = 44" unfolding h by simp
  show "take 4 header = ascii ''RIFF''" unfolding h ascii_tags by simp
  show "uint32_le_at header 4 = (36 + dataSize) mod 2 ^ 32"
    unfolding h uint32_le_at_def by (simp add: uint_le_bytes_le)
  show "take 4 (drop 8 header) = ascii ''WAVE''" unfolding h ascii_tags by simp
  show "take 4 (drop 12 header) = ascii ''fmt ''" unfolding h ascii_tags by simp
  show "uint32_le_at header 16 = 16"
    unfolding h uint32_le_at_def by (simp add: uint_le_bytes_le)
  show "uint16_le_at header 20 = 1"
    unfolding h uint16_le_at_def by (simp add: uint_le_bytes_le)
  show "uint16_le_at header 22 = 1"
    unfolding h uint16_le_at_def by (simp add: uint_le_bytes_le)
  show "uint32_le_at header 24 = sampleRate mod 2 ^ 32"
    unfolding h uint32_le_at_def by (simp add: uint_le_bytes_le)
  show "uint32_le_at header 28 = sampleRate * bitsPerSample div 8 mod 2 ^ 32"
    unfolding h uint32_le_at_def by (simp add: uint_le_bytes_le)
  show "uint16_le_at header 32 = bitsPerSample div 8 mod 2 ^ 16"
    unfolding h uint16_le_at_def by (simp add: uint_le_bytes_le)
  show "uint16_le_at header 34 = bitsPerSample mod 2 ^ 16"
    unfolding h uint16_le_at_def by (simp add: uint_le_bytes_le)
  show "take 4 (drop 36 header) = ascii ''data''" unfolding h ascii_tags by simp
  show "uint32_le_at header 40 = dataSize mod 2 ^ 32"
    unfolding h uint32_le_at_def by (simp add: uint_le_bytes_le)
qed

subsection \<open>The run of the tool\<close>

lemma encode_and_save_eq:
  assumes "wavHeader (derive_sampleRate descriptor) (derive_bitsPerSample descriptor)
             (length (Buffer_from_base64 env audioData)) = Inr header"
  shows "encode_and_save env outputDir audioData descriptor =
     ([WriteFile (outputDir @ ''/audio_output_'' @ uuidv4 env @ ''.wav'')
         (header @ Buffer_from_base64 env audioData)],
      (case writeFile env (outputDir @ ''/audio_output_'' @ uuidv4 env @ ''.wav'')
              (header @ Buffer_from_base64 env audioData) of
         None \<Rightarrow> Inr (''Audio successfully saved to: '' @ outputDir @ ''/audio_output_''
                        @ uuidv4 env @ ''.wav'')
       | Some error \<Rightarrow> Inl error))"
  using assms by (simp add: encode_and_save_def Let_def path_join_def split: option.splits)

lemma wavHeader_returns: "\<exists>header. wavHeader sampleRate bitsPerSample dataSize = Inr header"
  unfolding wavHeader_bytes by blast

text \<open>The run of the tool when the response carries a payload and a format descriptor.\<close>

lemma generate_with_payload:
  assumes "mkdir env ''sounds'' = None"
    and "fetch env text (case voice_name of None \<Rightarrow> ''Charon'' | Some v \<Rightarrow> v) = Inr (Inr result)"
    and "Option.bind (Option.bind (first_part result) inlineData) data = Some audioData"
    and "audioData \<noteq> []"
    and "Option.bind (Option.bind (first_part result) inlineData) mimeType = Some descriptor"
    and "descriptor \<noteq> []"
    and "wavHeader (derive_sampleRate descriptor) (derive_bitsPerSample descriptor)
             (length (Buffer_from_base64 env audioData)) = Inr header"
  shows "generate_and_save_audio env text voice_name =
     ([Mkdir ''sounds'', Fetch text (case voice_name of None \<Rightarrow> ''Charon'' | Some v \<Rightarrow> v),
       WriteFile (''sounds/audio_output_'' @ uuidv4 env @ ''.wav'')
         (header @ Buffer_from_base64 env audioData)],
      Inr (case writeFile env (''sounds/audio_output_'' @ uuidv4 env @ ''.wav'')
              (header @ Buffer_from_base64 env audioData) of
         None \<Rightarrow> ''Audio successfully saved to: sounds/audio_output_'' @ uuidv4 env @ ''.wav''
       | Some error \<Rightarrow> ''An error occurred during audio generation: '' @ message error))"
  using assms(1-6) encode_and_save_eq [OF assms(7), of "''sounds''"]
  by (simp add: generate_and_save_audio_def audio_try_block_def Let_def falsy_def
      split: option.splits)


subsection \<open>The numeric fields of the header\<close>

text \<open>
  C3, amended: for every derived sample rate and bit depth such that the bit depth is a
  multiple of 8 and the values fit their fields (sample rate and byte rate below
  \<open>2^32\<close>, bit depth below \<open>2^16\<close>), the 44-byte header holds, little-endian, the
  subchunk size 16 at offset 16, the audio format 1 at offset 20, the channel count 1 at
  offset 22, the sample rate at offset 24, the byte rate
  \<open>sampleRate \<times> channels \<times> bytesPerSample\<close> at offset 28, the block align
  \<open>channels \<times> bytesPerSample\<close> at offset 32 and the bits per sample at offset 34, where
  \<open>bytesPerSample = bitsPerSample / 8\<close>; the four tags are their ASCII bytes in order.
  Without the two conditions the fields of the model hold the values truncated and
  reduced (\<open>wavHeader_fields\<close>), in exact arithmetic.
\<close>

theorem header_numeric_fields:
  assumes "bitsPerSample mod 8 = 0"
    and "sampleRate < 2 ^ 32"
    and "of_nat sampleRate * numChannels * bytesPerSample bitsPerSample < 2 ^ 32"
    and "bitsPerSample < 2 ^ 16"
  shows "\<exists>header. wavHeader sampleRate bitsPerSample dataSize = Inr header \<and>
           length header = 44 \<and>
           bytesPerSample bitsPerSample = of_nat bitsPerSample / 8 \<and>
           uint32_le_at header 16 = 16 \<and>
           uint16_le_at header 20 = 1 \<and>
           of_nat (uint16_le_at header 22) = numChannels \<and>
           uint32_le_at header 24 = sampleRate \<and>
           of_nat (uint32_le_at header 28) =
             of_nat sampleRate * numChannels * bytesPerSample bitsPerSample \<and>
           of_nat (uint16_le_at header 32) = numChannels * bytesPerSample bitsPerSample \<and>
           uint16_le_at header 34 = bitsPerSample \<and>
           take 4 header = ascii ''RIFF'' \<and>
           take 4 (drop 8 header) = ascii ''WAVE'' \<and>
           take 4 (drop 12 header) = ascii ''fmt '' \<and>
           take 4 (drop 36 header) = ascii ''data''"
proof -
  obtain header where h: "wavHeader sampleRate bitsPerSample dataSize = Inr header"
    using wavHeader_returns by blast
  note f = wavHeader_fields [OF h]
  from assms(1) obtain m where m: "bitsPerSample = 8 * m" by (auto simp: mod_eq_0_iff_dvd)
  have bps: "bytesPerSample bitsPerSample = of_nat m"
    by (simp add: bytesPerSample_def m)
  from assms(3) have "(of_nat (sampleRate * m) :: rat) < of_nat (2 ^ 32)"
    by (simp add: bps numChannels_def)
  then have rate: "sampleRate * m < 2 ^ 32" by (simp only: of_nat_less_iff)
  from assms(4) have align: "m < 2 ^ 16" by (simp add: m)
  have d: "bitsPerSample div 8 = m" "sampleRate * bitsPerSample div 8 = sampleRate * m"
    by (simp_all add: m)
  have "of_nat (uint32_le_at header 28) =
          of_nat sampleRate * numChannels * bytesPerSample bitsPerSample"
    using rate by (simp add: f(10) bps numChannels_def d)
  moreover have "of_nat (uint16_le_at header 32) = numChannels * bytesPerSample bitsPerSample"
    using align by (simp add: f(11) bps numChannels_def d)
  moreover have "uint32_le_at header 24 = sampleRate" "uint16_le_at header 34 = bitsPerSample"
    using assms(2,4) by (simp_all add: f(9,12))
  moreover have "(of_nat (uint16_le_at header 22) :: rat) = numChannels"
    by (simp add: f(8) numChannels_def)
  ultimately show ?thesis
    using h f(1,2,4,5,6,7,13) by (auto simp: bytesPerSample_def)
qed


theorem header_numeric_fields_witness:
  "(16 :: nat) mod 8 = 0 \<and>
   (24000 :: nat) < 2 ^ 32 \<and>
   of_nat 24000 * numChannels * bytesPerSample 16 < 2 ^ 32 \<and>
   (16 :: nat) < 2 ^ 16 \<and>
   (\<exists>header. wavHeader 24000 16 3 = Inr header \<and>
           length header = 44 \<and>
           bytesPerSample 16 = of_nat 16 / 8 \<and>
           uint32_le_at header 16 = 16 \<and>
           uint16_le_at header 20 = 1 \<and>
           of_nat (uint16_le_at header 22) = numChannels \<and>
           uint32_le_at header 24 = 24000 \<and>
           of_nat (uint32_le_at header 28) = of_nat 24000 * numChannels * bytesPerSample 16 \<and>
           of_nat (uint16_le_at header 32) = numChannels * bytesPerSample 16 \<and>
           uint16_le_at header 34 = 16 \<and>
           take 4 header = ascii ''RIFF'' \<and>
           take 4 (drop 8 header) = ascii ''WAVE'' \<and>
           take 4 (drop 12 header) = ascii ''fmt '' \<and>
           take 4 (drop 36 header) = ascii ''data'')"
proof -
  have h1: "(16 :: nat) mod 8 = 0" and h2: "(24000 :: nat) < 2 ^ 32"
    and h4: "(16 :: nat) < 2 ^ 16"
    by simp_all
  have h3: "of_nat 24000 * numChannels * bytesPerSample 16 < 2 ^ 32"
    by (simp add: numChannels_def bytesPerSample_def)
  from header_numeric_fields [OF h1 h2 h3 h4, of 3] h1 h2 h3 h4 show ?thesis by blast
qed

text \<open>
  C3, as stated, holds for every derived bit depth. For \<open>audio/L12\<close> at 24000 Hz the
  block-align field at offset 32 holds 1, while \<open>channels \<times> bytesPerSample\<close> is \<open>3/2\<close>.
\<close>

theorem block_align_counterexample:
  "wavHeader 24000 12 0 =
     Inr [0x52, 0x49, 0x46, 0x46, 0x24, 0, 0, 0, 0x57, 0x41, 0x56, 0x45,
          0x66, 0x6d, 0x74, 0x20, 0x10, 0, 0, 0, 1, 0, 1, 0,
          0xC0, 0x5D, 0, 0, 0xA0, 0x8C, 0, 0, 1, 0, 0x0C, 0,
          0x64, 0x61, 0x74, 0x61, 0, 0, 0, 0] \<and>
   uint16_le_at
         [0x52, 0x49, 0x46, 0x46, 0x24, 0, 0, 0, 0x57, 0x41, 0x56, 0x45,
          0x66, 0x6d, 0x74, 0x20, 0x10, 0, 0, 0, 1, 0, 1, 0,
          0xC0, 0x5D, 0, 0, 0xA0, 0x8C, 0, 0, 1, 0, 0x0C, 0,
          0x64, 0x61, 0x74, 0x61, 0, 0, 0, 0] 32 = 1 \<and>
   numChannels * bytesPerSample 12 = 3 / 2 \<and>
   (of_nat 1 :: rat) \<noteq> 3 / 2"
  unfolding wavHeader_bytes ToUint32_of_nat ToUint16_of_nat chunkSize_of_nat
    ToUint16_blockAlign ToUint32_byteRate
  by (simp add: bytes_le_unfold uint16_le_at_def uint_le_def numChannels_def bytesPerSample_def)

subsection \<open>Bit depths that are not a multiple of 8\<close>

lemma div8_in_Ints: "(of_nat n / 8 :: rat) \<in> \<int> \<longleftrightarrow> 8 dvd n"
proof
  assume "(of_nat n / 8 :: rat) \<in> \<int>"
  then obtain k where "of_nat n / 8 = (of_int k :: rat)"
    by (auto elim: Ints_cases)
  then have "(of_nat n :: rat) = of_int (8 * k)" by simp
  then have "(of_int (int n) :: rat) = of_int (8 * k)" by simp
  then have "int n = 8 * k" by (simp only: of_int_eq_iff)
  then show "8 dvd n" by presburger
next
  assume "8 dvd n"
  then obtain m where "n = 8 * m" ..
  then show "(of_nat n / 8 :: rat) \<in> \<int>" by simp
qed

lemma bytesPerSample_in_Ints: "bytesPerSample bits \<in> \<int> \<longleftrightarrow> bits mod 8 = 0"
  by (simp add: bytesPerSample_def div8_in_Ints dvd_eq_mod_eq_0)

lemma blockAlign_in_Ints: "blockAlign bits \<in> \<int> \<longleftrightarrow> bits mod 8 = 0"
  by (simp add: blockAlign_def numChannels_def bytesPerSample_in_Ints)

lemma byteRate_in_Ints: "byteRate sr bits \<in> \<int> \<longleftrightarrow> 8 dvd sr * bits"
  using div8_in_Ints [of "sr * bits"]
  by (simp add: byteRate_def blockAlign_def numChannels_def bytesPerSample_def)

text \<open>
  C10, amended: the encoder divides the derived bit depth by 8 without checking
  divisibility. For a sample rate below \<open>2^32\<close> and a bit depth below \<open>2^16\<close> that is not
  a multiple of 8 (\<open>audio/L12\<close>, say) the computed \<open>bytesPerSample\<close> and block align are
  not integers; the byte rate is an integer exactly when \<open>sampleRate \<times> bitsPerSample\<close> is a
  multiple of 8; the block-align field holds the block align truncated to an integer and
  the byte-rate field the byte rate truncated and reduced modulo \<open>2^32\<close>; and the
  block-align field differs from \<open>channels \<times> bytesPerSample\<close>, so the equalities of the
  specification's table hold only when \<open>bitsPerSample mod 8 = 0\<close>. Within the two bounds
  every number the source computes here is an integer below \<open>2^48\<close> divided by 8, which a
  double holds exactly, so the exact arithmetic of the model is the arithmetic of the
  source.
\<close>

theorem indivisible_bit_depth:
  assumes "bitsPerSample mod 8 \<noteq> 0"
    and "sampleRate < 2 ^ 32"
    and "bitsPerSample < 2 ^ 16"
  shows "bytesPerSample bitsPerSample \<notin> \<int> \<and>
         blockAlign bitsPerSample \<notin> \<int> \<and>
         (byteRate sampleRate bitsPerSample \<in> \<int> \<longleftrightarrow> 8 dvd sampleRate * bitsPerSample) \<and>
         (\<exists>header. wavHeader sampleRate bitsPerSample dataSize = Inr header \<and>
            uint16_le_at header 32 = bitsPerSample div 8 \<and>
            uint32_le_at header 28 = sampleRate * bitsPerSample div 8 mod 2 ^ 32 \<and>
            of_nat (uint16_le_at header 32) \<noteq> numChannels * bytesPerSample bitsPerSample)"
proof -
  obtain header where h: "wavHeader sampleRate bitsPerSample dataSize = Inr header"
    using wavHeader_returns by blast
  have "(of_nat (uint16_le_at header 32) :: rat) \<in> \<int>" by simp
  moreover have "numChannels * bytesPerSample bitsPerSample \<notin> \<int>"
    using assms blockAlign_in_Ints [of bitsPerSample] by (simp add: blockAlign_def)
  ultimately have "of_nat (uint16_le_at header 32) \<noteq> numChannels * bytesPerSample bitsPerSample"
    by metis
  moreover from assms(3) have "bitsPerSample div 8 mod 2 ^ 16 = bitsPerSample div 8"
    by simp
  ultimately show ?thesis
    using h wavHeader_fields(10,11) [OF h] assms(1)
    by (auto simp: bytesPerSample_in_Ints blockAlign_in_Ints byteRate_in_Ints)
qed

theorem indivisible_bit_depth_witness:
  "(12 :: nat) mod 8 \<noteq> 0 \<and>
   (11025 :: nat) < 2 ^ 32 \<and>
   (12 :: nat) < 2 ^ 16 \<and>
   bytesPerSample 12 \<notin> \<int> \<and>
   blockAlign 12 \<notin> \<int> \<and>
   (byteRate 11025 12 \<in> \<int> \<longleftrightarrow> (8 :: nat) dvd 11025 * 12) \<and>
   (\<exists>header. wavHeader 11025 12 3 = Inr header \<and>
      uint16_le_at header 32 = 1 \<and>
      uint32_le_at header 28 = 16537 \<and>
      of_nat (uint16_le_at header 32) \<noteq> numChannels * bytesPerSample 12)"
proof -
  have h: "(12 :: nat) mod 8 \<noteq> 0" and h2: "(11025 :: nat) < 2 ^ 32"
    and h3: "(12 :: nat) < 2 ^ 16"
    by simp_all
  from indivisible_bit_depth [OF h h2 h3, of 3] h show ?thesis by simp
qed

text \<open>
  C10, as stated, says that for a bit depth that is not a multiple of 8, and for
  \<open>audio/L12\<close> in particular, the byte-rate field is written from a non-integer value.
  At 24000 Hz and 12 bits the byte rate is \<open>24000 \<times> 1.5 = 36000\<close>, an integer.
\<close>

theorem byte_rate_integer_counterexample:
  "derive_sampleRate ''audio/L12;rate=24000'' = 24000 \<and>
   derive_bitsPerSample ''audio/L12;rate=24000'' = 12 \<and>
   (12 :: nat) mod 8 \<noteq> 0 \<and>
   byteRate 24000 12 = 36000 \<and>
   byteRate 24000 12 \<in> \<int>"
proof -
  have "byteRate 24000 12 = 36000"
    by (simp add: byteRate_def blockAlign_def numChannels_def bytesPerSample_def)
  moreover have "derive_sampleRate ''audio/L12;rate=24000'' = 24000"
    by (simp add: derive_sampleRate_def isDigit_def parseInt_def digit_value_def)
  moreover have "derive_bitsPerSample ''audio/L12;rate=24000'' = 12"
    by (simp add: derive_bitsPerSample_def isDigit_def parseInt_def digit_value_def)
  ultimately show ?thesis by simp
qed


subsection \<open>The concrete environment\<close>

lemma example_env_simps:
  "mkdir (example_env result) dir = None"
  "fetch (example_env result) text voice = Inr (Inr result)"
  "Buffer_from_base64 (example_env result) ''AQID'' = [1, 2, 3]"
  "uuidv4 (example_env result) = ''110ec58a-a0f2-4ac4-8393-c866d813b8d1''"
  "writeFile (example_env result) filePath buffer = None"
  by (simp_all add: example_env_def)

lemma example_result_simps:
  "Option.bind (Option.bind (first_part (example_result descriptor)) inlineData) data = Some ''AQID''"
  "Option.bind (Option.bind (first_part (example_result descriptor)) inlineData) mimeType = Some descriptor"
  by (simp_all add: example_result_def first_part_def first_def)

lemma derive_examples:
  "derive_sampleRate ''audio/L16;codec=pcm;rate=24000'' = 24000"
  "derive_bitsPerSample ''audio/L16;codec=pcm;rate=24000'' = 16"
  "derive_sampleRate ''audio/pcm'' = 24000"
  "derive_bitsPerSample ''audio/pcm'' = 16"
  by (simp_all add: derive_sampleRate_def derive_bitsPerSample_def isDigit_def parseInt_def
      digit_value_def)

subsection \<open>The file that is written\<close>

text \<open>
  C2: when the response carries a payload that decodes to \<open>N\<close> bytes of PCM and the
  derived sample rate and bit depth are 24000 and 16, the buffer handed to
  \<open>fs.writeFile\<close> is exactly \<open>N + 44\<close> bytes long; its bytes at offsets 0 to 3 are
  \<open>RIFF\<close>, at 8 to 11 \<open>WAVE\<close>, at 36 to 39 \<open>data\<close>; the little-endian 32-bit integer at
  offset 4 is \<open>N + 36\<close> and the one at offset 40 is \<open>N\<close>; and the PCM bytes follow the
  header unchanged. The payload is the base64 decoding of a JavaScript string, whose
  length the platform keeps below \<open>2^30\<close>, so \<open>N + 36\<close> fits the 32-bit size field; the
  theorem states that bound.
\<close>

theorem wav_file_layout:
  assumes "mkdir env ''sounds'' = None"
    and "fetch env text (case voice_name of None \<Rightarrow> ''Charon'' | Some v \<Rightarrow> v) = Inr (Inr result)"
    and "Option.bind (Option.bind (first_part result) inlineData) data = Some audioData"
    and "audioData \<noteq> []"
    and "Option.bind (Option.bind (first_part result) inlineData) mimeType = Some descriptor"
    and "descriptor \<noteq> []"
    and "derive_sampleRate descriptor = 24000"
    and "derive_bitsPerSample descriptor = 16"
    and "length (Buffer_from_base64 env audioData) + 36 < 2 ^ 32"
  shows "\<exists>wavBuffer.
           fst (generate_and_save_audio env text voice_name) =
             [Mkdir ''sounds'', Fetch text (case voice_name of None \<Rightarrow> ''Charon'' | Some v \<Rightarrow> v),
              WriteFile (''sounds/audio_output_'' @ uuidv4 env @ ''.wav'') wavBuffer] \<and>
           length wavBuffer = length (Buffer_from_base64 env audioData) + 44 \<and>
           take 4 wavBuffer = ascii ''RIFF'' \<and>
           take 4 (drop 8 wavBuffer) = ascii ''WAVE'' \<and>
           take 4 (drop 36 wavBuffer) = ascii ''data'' \<and>
           uint32_le_at wavBuffer 4 = length (Buffer_from_base64 env audioData) + 36 \<and>
           uint32_le_at wavBuffer 40 = length (Buffer_from_base64 env audioData) \<and>
           drop 44 wavBuffer = Buffer_from_base64 env audioData \<and>
           uint32_le_at wavBuffer 24 = 24000 \<and>
           uint16_le_at wavBuffer 34 = 16"
proof -
  let ?pcm = "Buffer_from_base64 env audioData"
  obtain header where h: "wavHeader (derive_sampleRate descriptor)
      (derive_bitsPerSample descriptor) (length ?pcm) = Inr header"
    using wavHeader_returns by blast
  note f = wavHeader_fields [OF h]
  have len: "length header = 44" by (rule f(1))
  have at: "uint32_le_at (header @ ?pcm) 4 = uint32_le_at header 4"
    "uint32_le_at (header @ ?pcm) 40 = uint32_le_at header 40"
    "uint32_le_at (header @ ?pcm) 24 = uint32_le_at header 24"
    "uint16_le_at (header @ ?pcm) 34 = uint16_le_at header 34"
    by (simp_all add: uint32_le_at_def uint16_le_at_def len)
  have small: "(36 + length ?pcm) mod 2 ^ 32 = length ?pcm + 36"
    "length ?pcm mod 2 ^ 32 = length ?pcm"
    using assms(9) by simp_all
  have "fst (generate_and_save_audio env text voice_name) =
      [Mkdir ''sounds'', Fetch text (case voice_name of None \<Rightarrow> ''Charon'' | Some v \<Rightarrow> v),
       WriteFile (''sounds/audio_output_'' @ uuidv4 env @ ''.wav'') (header @ ?pcm)]"
    by (simp add: generate_with_payload [OF assms(1-6) h])
  moreover have "length (header @ ?pcm) = length ?pcm + 44" by (simp add: len)
  moreover have "take 4 (header @ ?pcm) = ascii ''RIFF''" using f(2) by (simp add: len)
  moreover have "take 4 (drop 8 (header @ ?pcm)) = ascii ''WAVE''" using f(4) by (simp add: len)
  moreover have "take 4 (drop 36 (header @ ?pcm)) = ascii ''data''" using f(13) by (simp add: len)
  moreover have "uint32_le_at (header @ ?pcm) 4 = length ?pcm + 36"
    by (simp only: at f(3) small)
  moreover have "uint32_le_at (header @ ?pcm) 40 = length ?pcm"
    by (simp only: at f(14) small)
  moreover have "drop 44 (header @ ?pcm) = ?pcm" by (simp add: len)
  moreover have "uint32_le_at (header @ ?pcm) 24 = 24000"
    by (simp add: at f(9) assms(7))
  moreover have "uint16_le_at (header @ ?pcm) 34 = 16"
    by (simp add: at f(12) assms(8))
  ultimately show ?thesis by blast
qed


theorem wav_file_layout_witness:
  "mkdir (example_env (example_result ''audio/L16;codec=pcm;rate=24000'')) ''sounds'' = None \<and>
   fetch (example_env (example_result ''audio/L16;codec=pcm;rate=24000'')) ''hello''
     (case None of None \<Rightarrow> ''Charon'' | Some v \<Rightarrow> v) =
     Inr (Inr (example_result ''audio/L16;codec=pcm;rate=24000'')) \<and>
   Option.bind (Option.bind (first_part (example_result ''audio/L16;codec=pcm;rate=24000''))
     inlineData) data = Some ''AQID'' \<and>
   ''AQID'' \<noteq> [] \<and>
   Option.bind (Option.bind (first_part (example_result ''audio/L16;codec=pcm;rate=24000''))
     inlineData) mimeType = Some ''audio/L16;codec=pcm;rate=24000'' \<and>
   ''audio/L16;codec=pcm;rate=24000'' \<noteq> [] \<and>
   derive_sampleRate ''audio/L16;codec=pcm;rate=24000'' = 24000 \<and>
   derive_bitsPerSample ''audio/L16;codec=pcm;rate=24000'' = 16 \<and>
   length (Buffer_from_base64 (example_env (example_result ''audio/L16;codec=pcm;rate=24000''))
     ''AQID'') + 36 < 2 ^ 32 \<and>
   (\<exists>wavBuffer.
      fst (generate_and_save_audio (example_env (example_result ''audio/L16;codec=pcm;rate=24000''))
             ''hello'' None) =
        [Mkdir ''sounds'', Fetch ''hello'' ''Charon'',
         WriteFile ''sounds/audio_output_110ec58a-a0f2-4ac4-8393-c866d813b8d1.wav'' wavBuffer] \<and>
      length wavBuffer = 47 \<and>
      take 4 wavBuffer = ascii ''RIFF'' \<and>
      take 4 (drop 8 wavBuffer) = ascii ''WAVE'' \<and>
      take 4 (drop 36 wavBuffer) = ascii ''data'' \<and>
      uint32_le_at wavBuffer 4 = 39 \<and>
      uint32_le_at wavBuffer 40 = 3 \<and>
      drop 44 wavBuffer = [1, 2, 3] \<and>
      uint32_le_at wavBuffer 24 = 24000 \<and>
      uint16_le_at wavBuffer 34 = 16)"
proof -
  let ?d = "''audio/L16;codec=pcm;rate=24000''"
  let ?env = "example_env (example_result ?d)"
  have h1: "mkdir ?env ''sounds'' = None"
    and h2: "fetch ?env ''hello'' (case None of None \<Rightarrow> ''Charon'' | Some v \<Rightarrow> v) =
       Inr (Inr (example_result ?d))"
    by (simp_all add: example_env_simps)
  note h3 = example_result_simps(1) [of ?d]
  have h4: "''AQID'' \<noteq> []" by simp
  note h5 = example_result_simps(2) [of ?d]
  have h6: "?d \<noteq> []" by simp
  note h7 = derive_examples(1) and h8 = derive_examples(2)
  have h9: "length (Buffer_from_base64 ?env ''AQID'') + 36 < 2 ^ 32"
    by (simp add: example_env_simps)
  from wav_file_layout [OF h1 h2 h3 h4 h5 h6 h7 h8 h9]
  have "\<exists>wavBuffer.
      fst (generate_and_save_audio ?env ''hello'' None) =
        [Mkdir ''sounds'', Fetch ''hello'' ''Charon'',
         WriteFile ''sounds/audio_output_110ec58a-a0f2-4ac4-8393-c866d813b8d1.wav'' wavBuffer] \<and>
      length wavBuffer = 47 \<and>
      take 4 wavBuffer = ascii ''RIFF'' \<and>
      take 4 (drop 8 wavBuffer) = ascii ''WAVE'' \<and>
      take 4 (drop 36 wavBuffer) = ascii ''data'' \<and>
      uint32_le_at wavBuffer 4 = 39 \<and>
      uint32_le_at wavBuffer 40 = 3 \<and>
      drop 44 wavBuffer = [1, 2, 3] \<and>
      uint32_le_at wavBuffer 24 = 24000 \<and>
      uint16_le_at wavBuffer 34 = 16"
    by (simp add: example_env_simps numeral_3_eq_3)
  with h1 h2 h3 h4 h5 h6 h7 h8 h9 show ?thesis by blast
qed

subsection \<open>A response without audio\<close>

text \<open>
  C7: when the synthesis response contains no audio payload (no candidate, no part, no
  inline data in the first part, or missing or empty data), the tool returns the fixed
  string \<open>No audio data was returned.\<close>; it is what the \<open>try\<close> block returns, not a
  throw that the \<open>catch\<close> block reports, and the only calls made are \<open>mkdir\<close> and \<open>fetch\<close>:
  no file is written.
\<close>

theorem no_audio_payload:
  assumes "mkdir env ''sounds'' = None"
    and "fetch env text (case voice_name of None \<Rightarrow> ''Charon'' | Some v \<Rightarrow> v) = Inr (Inr result)"
    and "falsy (Option.bind (Option.bind (first_part result) inlineData) data)"
  shows "generate_and_save_audio env text voice_name =
     ([Mkdir ''sounds'', Fetch text (case voice_name of None \<Rightarrow> ''Charon'' | Some v \<Rightarrow> v)],
      Inr ''No audio data was returned.'') \<and>
    snd (audio_try_block env ''sounds'' text (case voice_name of None \<Rightarrow> ''Charon'' | Some v \<Rightarrow> v)) =
      Inr ''No audio data was returned.''"
  using assms by (simp add: generate_and_save_audio_def audio_try_block_def Let_def)

theorem no_audio_payload_witness:
  "mkdir (example_env text_only_result) ''sounds'' = None \<and>
   fetch (example_env text_only_result) ''hello''
     (case Some ''Kore'' of None \<Rightarrow> ''Charon'' | Some v \<Rightarrow> v) = Inr (Inr text_only_result) \<and>
   falsy (Option.bind (Option.bind (first_part text_only_result) inlineData) data) \<and>
   generate_and_save_audio (example_env text_only_result) ''hello'' (Some ''Kore'') =
     ([Mkdir ''sounds'', Fetch ''hello'' ''Kore''], Inr ''No audio data was returned.'') \<and>
   snd (audio_try_block (example_env text_only_result) ''sounds'' ''hello'' ''Kore'') =
     Inr ''No audio data was returned.''"
proof -
  have h1: "mkdir (example_env text_only_result) ''sounds'' = None"
    and h2: "fetch (example_env text_only_result) ''hello''
       (case Some ''Kore'' of None \<Rightarrow> ''Charon'' | Some v \<Rightarrow> v) = Inr (Inr text_only_result)"
    by (simp_all add: example_env_simps)
  have h3: "falsy (Option.bind (Option.bind (first_part text_only_result) inlineData) data)"
    by (simp add: text_only_result_def first_part_def first_def falsy_def)
  from no_audio_payload [OF h1 h2 h3] h1 h2 h3 show ?thesis by simp
qed

lemma no_descriptor_no_audio:
  assumes "mkdir env ''sounds'' = None"
    and "fetch env text (case voice_name of None \<Rightarrow> ''Charon'' | Some v \<Rightarrow> v) = Inr (Inr result)"
    and "falsy (Option.bind (Option.bind (first_part result) inlineData) mimeType)"
  shows "generate_and_save_audio env text voice_name =
     ([Mkdir ''sounds'', Fetch text (case voice_name of None \<Rightarrow> ''Charon'' | Some v \<Rightarrow> v)],
      Inr ''No audio data was returned.'')"
  using assms by (simp add: generate_and_save_audio_def audio_try_block_def Let_def)


subsection \<open>Format descriptors without a rate or a bit depth\<close>

lemma startsWith_iff: "startsWith s p \<longleftrightarrow> (\<exists>t. s = p @ t)"
  by (induction s p rule: startsWith.induct) auto

lemma match_here_iff:
  "startsWith s lit \<and> takeWhile isDigit (drop (length lit) s) \<noteq> [] \<longleftrightarrow>
   (\<exists>d post. s = lit @ d # post \<and> isDigit d)"
proof
  assume "startsWith s lit \<and> takeWhile isDigit (drop (length lit) s) \<noteq> []"
  then obtain t where t: "s = lit @ t" and "takeWhile isDigit t \<noteq> []"
    by (auto simp: startsWith_iff)
  then obtain d post where "t = d # post" "isDigit d"
    by (cases t) (auto split: if_splits)
  with t show "\<exists>d post. s = lit @ d # post \<and> isDigit d" by blast
next
  assume "\<exists>d post. s = lit @ d # post \<and> isDigit d"
  then show "startsWith s lit \<and> takeWhile isDigit (drop (length lit) s) \<noteq> []"
    by (auto simp: startsWith_iff)
qed

lemma match_digits_None_iff:
  "match_digits lit s = None \<longleftrightarrow> \<not> (\<exists>pre d post. s = pre @ lit @ d # post \<and> isDigit d)"
proof (induction s)
  case Nil
  show ?case by simp
next
  case (Cons c cs)
  have split: "(\<exists>pre d post. c # cs = pre @ lit @ d # post \<and> isDigit d) \<longleftrightarrow>
      (\<exists>d post. c # cs = lit @ d # post \<and> isDigit d) \<or>
      (\<exists>pre d post. cs = pre @ lit @ d # post \<and> isDigit d)"
  proof
    assume "\<exists>pre d post. c # cs = pre @ lit @ d # post \<and> isDigit d"
    then obtain pre d post where p: "c # cs = pre @ lit @ d # post" "isDigit d" by blast
    show "(\<exists>d post. c # cs = lit @ d # post \<and> isDigit d) \<or>
      (\<exists>pre d post. cs = pre @ lit @ d # post \<and> isDigit d)"
    proof (cases pre)
      case Nil
      with p show ?thesis by auto
    next
      case (Cons x pre')
      with p have "cs = pre' @ lit @ d # post" by simp
      with p(2) show ?thesis by blast
    qed
  next
    assume "(\<exists>d post. c # cs = lit @ d # post \<and> isDigit d) \<or>
      (\<exists>pre d post. cs = pre @ lit @ d # post \<and> isDigit d)"
    then show "\<exists>pre d post. c # cs = pre @ lit @ d # post \<and> isDigit d"
    proof
      assume "\<exists>d post. c # cs = lit @ d # post \<and> isDigit d"
      then obtain d post where "c # cs = [] @ lit @ d # post" "isDigit d" by auto
      then show ?thesis by blast
    next
      assume "\<exists>pre d post. cs = pre @ lit @ d # post \<and> isDigit d"
      then obtain pre d post where "c # cs = (c # pre) @ lit @ d # post" "isDigit d" by auto
      then show ?thesis by blast
    qed
  qed
  show ?case
  proof (cases "startsWith (c # cs) lit \<and> takeWhile isDigit (drop (length lit) (c # cs)) \<noteq> []")
    case True
    then have "match_digits lit (c # cs) \<noteq> None" by (simp add: Let_def)
    moreover from True have "\<exists>d post. c # cs = lit @ d # post \<and> isDigit d"
      using match_here_iff [of "c # cs" lit] by blast
    ultimately show ?thesis using split by blast
  next
    case False
    then have "match_digits lit (c # cs) = match_digits lit cs" by (auto simp: Let_def)
    moreover from False have "\<not> (\<exists>d post. c # cs = lit @ d # post \<and> isDigit d)"
      using match_here_iff [of "c # cs" lit] by blast
    ultimately show ?thesis using split Cons.IH by simp
  qed
qed


lemma generate_success:
  assumes "mkdir env ''sounds'' = None"
    and "fetch env text (case voice_name of None \<Rightarrow> ''Charon'' | Some v \<Rightarrow> v) = Inr (Inr result)"
    and "Option.bind (Option.bind (first_part result) inlineData) data = Some audioData"
    and "audioData \<noteq> []"
    and "Option.bind (Option.bind (first_part result) inlineData) mimeType = Some descriptor"
    and "descriptor \<noteq> []"
    and "\<forall>buffer. writeFile env (''sounds/audio_output_'' @ uuidv4 env @ ''.wav'') buffer = None"
  shows "\<exists>header.
     wavHeader (derive_sampleRate descriptor) (derive_bitsPerSample descriptor)
       (length (Buffer_from_base64 env audioData)) = Inr header \<and>
     generate_and_save_audio env text voice_name =
       ([Mkdir ''sounds'', Fetch text (case voice_name of None \<Rightarrow> ''Charon'' | Some v \<Rightarrow> v),
         WriteFile (''sounds/audio_output_'' @ uuidv4 env @ ''.wav'')
           (header @ Buffer_from_base64 env audioData)],
        Inr (''Audio successfully saved to: '' @ ''sounds/audio_output_'' @ uuidv4 env @ ''.wav''))"
proof -
  obtain header where h: "wavHeader (derive_sampleRate descriptor)
      (derive_bitsPerSample descriptor) (length (Buffer_from_base64 env audioData)) = Inr header"
    using wavHeader_returns by blast
  from generate_with_payload [OF assms(1-6) h] assms(7) h show ?thesis by simp
qed

text \<open>
  C6, amended: for every non-empty format descriptor that comes with a non-empty
  payload, if the rate pattern (\<open>rate=\<close> followed by a digit) does not occur in it, the
  derived sample rate is 24000, and if the bit-depth pattern (\<open>audio/L\<close> followed by a
  digit) does not occur in it, the derived bit depth is 16; the values are the ones
  written to the header, and the tool goes on to write the file and returns its success
  message.
\<close>

theorem fallback_rate_and_depth:
  assumes "mkdir env ''sounds'' = None"
    and "fetch env text (case voice_name of None \<Rightarrow> ''Charon'' | Some v \<Rightarrow> v) = Inr (Inr result)"
    and "Option.bind (Option.bind (first_part result) inlineData) data = Some audioData"
    and "audioData \<noteq> []"
    and "Option.bind (Option.bind (first_part result) inlineData) mimeType = Some descriptor"
    and "descriptor \<noteq> []"
    and "\<forall>buffer. writeFile env (''sounds/audio_output_'' @ uuidv4 env @ ''.wav'') buffer = None"
  shows "\<exists>wavBuffer.
     generate_and_save_audio env text voice_name =
       ([Mkdir ''sounds'', Fetch text (case voice_name of None \<Rightarrow> ''Charon'' | Some v \<Rightarrow> v),
         WriteFile (''sounds/audio_output_'' @ uuidv4 env @ ''.wav'') wavBuffer],
        Inr (''Audio successfully saved to: '' @ ''sounds/audio_output_'' @ uuidv4 env @ ''.wav'')) \<and>
     ((\<nexists>pre d post. descriptor = pre @ ''rate='' @ d # post \<and> isDigit d) \<longrightarrow>
        derive_sampleRate descriptor = 24000 \<and> uint32_le_at wavBuffer 24 = 24000) \<and>
     ((\<nexists>pre d post. descriptor = pre @ ''audio/L'' @ d # post \<and> isDigit d) \<longrightarrow>
        derive_bitsPerSample descriptor = 16 \<and> uint16_le_at wavBuffer 34 = 16)"
proof -
  let ?pcm = "Buffer_from_base64 env audioData"
  from generate_success [OF assms] obtain header
    where h: "wavHeader (derive_sampleRate descriptor) (derive_bitsPerSample descriptor)
                (length ?pcm) = Inr header"
      and run: "generate_and_save_audio env text voice_name =
       ([Mkdir ''sounds'', Fetch text (case voice_name of None \<Rightarrow> ''Charon'' | Some v \<Rightarrow> v),
         WriteFile (''sounds/audio_output_'' @ uuidv4 env @ ''.wav'') (header @ ?pcm)],
        Inr (''Audio successfully saved to: '' @ ''sounds/audio_output_'' @ uuidv4 env @ ''.wav''))"
    by blast
  note f = wavHeader_fields [OF h]
  have at: "uint32_le_at (header @ ?pcm) 24 = derive_sampleRate descriptor mod 2 ^ 32"
    "uint16_le_at (header @ ?pcm) 34 = derive_bitsPerSample descriptor mod 2 ^ 16"
    using f(9,12) by (simp_all add: uint32_le_at_def uint16_le_at_def f(1))
  have rate: "derive_sampleRate descriptor = 24000 \<and> uint32_le_at (header @ ?pcm) 24 = 24000"
    if "\<nexists>pre d post. descriptor = pre @ ''rate='' @ d # post \<and> isDigit d"
  proof -
    from that have "match_digits ''rate='' descriptor = None"
      using match_digits_None_iff [of "''rate=''" descriptor] by blast
    then have "derive_sampleRate descriptor = 24000" by (simp add: derive_sampleRate_def)
    then show ?thesis by (simp add: at)
  qed
  have depth: "derive_bitsPerSample descriptor = 16 \<and> uint16_le_at (header @ ?pcm) 34 = 16"
    if "\<nexists>pre d post. descriptor = pre @ ''audio/L'' @ d # post \<and> isDigit d"
  proof -
    from that have "match_digits ''audio/L'' descriptor = None"
      using match_digits_None_iff [of "''audio/L''" descriptor] by blast
    then have "derive_bitsPerSample descriptor = 16" by (simp add: derive_bitsPerSample_def)
    then show ?thesis by (simp add: at)
  qed
  from run rate depth show ?thesis by blast
qed

lemma audio_pcm_has_no_pattern:
  "\<nexists>pre d post. ''audio/pcm'' = pre @ ''rate='' @ d # post \<and> isDigit d"
  "\<nexists>pre d post. ''audio/pcm'' = pre @ ''audio/L'' @ d # post \<and> isDigit d"
proof -
  have "match_digits ''rate='' ''audio/pcm'' = None" "match_digits ''audio/L'' ''audio/pcm'' = None"
    by (simp_all add: isDigit_def)
  then show "\<nexists>pre d post. ''audio/pcm'' = pre @ ''rate='' @ d # post \<and> isDigit d"
    "\<nexists>pre d post. ''audio/pcm'' = pre @ ''audio/L'' @ d # post \<and> isDigit d"
    using match_digits_None_iff [of "''rate=''" "''audio/pcm''"]
      match_digits_None_iff [of "''audio/L''" "''audio/pcm''"]
    by blast+
qed

theorem fallback_rate_and_depth_witness:
  "mkdir (example_env (example_result ''audio/pcm'')) ''sounds'' = None \<and>
   fetch (example_env (example_result ''audio/pcm'')) ''hello''
     (case None of None \<Rightarrow> ''Charon'' | Some v \<Rightarrow> v) = Inr (Inr (example_result ''audio/pcm'')) \<and>
   Option.bind (Option.bind (first_part (example_result ''audio/pcm'')) inlineData) data =
     Some ''AQID'' \<and>
   ''AQID'' \<noteq> [] \<and>
   Option.bind (Option.bind (first_part (example_result ''audio/pcm'')) inlineData) mimeType =
     Some ''audio/pcm'' \<and>
   ''audio/pcm'' \<noteq> [] \<and>
   (\<forall>buffer. writeFile (example_env (example_result ''audio/pcm''))
      (''sounds/audio_output_'' @ uuidv4 (example_env (example_result ''audio/pcm'')) @ ''.wav'')
      buffer = None) \<and>
   (\<nexists>pre d post. ''audio/pcm'' = pre @ ''rate='' @ d # post \<and> isDigit d) \<and>
   (\<nexists>pre d post. ''audio/pcm'' = pre @ ''audio/L'' @ d # post \<and> isDigit d) \<and>
   (\<exists>wavBuffer.
     generate_and_save_audio (example_env (example_result ''audio/pcm'')) ''hello'' None =
       ([Mkdir ''sounds'', Fetch ''hello'' ''Charon'',
         WriteFile ''sounds/audio_output_110ec58a-a0f2-4ac4-8393-c866d813b8d1.wav'' wavBuffer],
        Inr ''Audio successfully saved to: sounds/audio_output_110ec58a-a0f2-4ac4-8393-c866d813b8d1.wav'') \<and>
     derive_sampleRate ''audio/pcm'' = 24000 \<and> uint32_le_at wavBuffer 24 = 24000 \<and>
     derive_bitsPerSample ''audio/pcm'' = 16 \<and> uint16_le_at wavBuffer 34 = 16)"
proof -
  let ?d = "''audio/pcm''"
  let ?env = "example_env (example_result ?d)"
  have h1: "mkdir ?env ''sounds'' = None"
    and h2: "fetch ?env ''hello'' (case None of None \<Rightarrow> ''Charon'' | Some v \<Rightarrow> v) =
       Inr (Inr (example_result ?d))"
    and h7: "\<forall>buffer. writeFile ?env (''sounds/audio_output_'' @ uuidv4 ?env @ ''.wav'') buffer = None"
    by (simp_all add: example_env_simps)
  note h3 = example_result_simps(1) [of ?d]
  have h4: "''AQID'' \<noteq> []" by simp
  note h5 = example_result_simps(2) [of ?d]
  have h6: "?d \<noteq> []" by simp
  note a = audio_pcm_has_no_pattern
  from fallback_rate_and_depth [OF h1 h2 h3 h4 h5 h6 h7] a
  have "\<exists>wavBuffer.
     generate_and_save_audio ?env ''hello'' None =
       ([Mkdir ''sounds'', Fetch ''hello'' ''Charon'',
         WriteFile ''sounds/audio_output_110ec58a-a0f2-4ac4-8393-c866d813b8d1.wav'' wavBuffer],
        Inr ''Audio successfully saved to: sounds/audio_output_110ec58a-a0f2-4ac4-8393-c866d813b8d1.wav'') \<and>
     derive_sampleRate ''audio/pcm'' = 24000 \<and> uint32_le_at wavBuffer 24 = 24000 \<and>
     derive_bitsPerSample ''audio/pcm'' = 16 \<and> uint16_le_at wavBuffer 34 = 16"
    by (simp add: example_env_simps)
  with h1 h2 h3 h4 h5 h6 h7 a show ?thesis by blast
qed


text \<open>
  C6, as stated, speaks of every format descriptor in which a pattern is absent. Both
  patterns are absent from the empty descriptor, but an empty \<open>mimeType\<close> is falsy: the
  check \<open>!audioData || !mimeType\<close> returns \<open>No audio data was returned.\<close> before any rate
  or bit depth is derived, and no file is written.
\<close>

theorem empty_descriptor_counterexample:
  "(\<nexists>pre d post. [] = pre @ ''rate='' @ d # post \<and> isDigit d) \<and>
   (\<nexists>pre d post. [] = pre @ ''audio/L'' @ d # post \<and> isDigit d) \<and>
   Option.bind (Option.bind (first_part (example_result [])) inlineData) data = Some ''AQID'' \<and>
   Option.bind (Option.bind (first_part (example_result [])) inlineData) mimeType = Some [] \<and>
   generate_and_save_audio (example_env (example_result [])) ''hello'' None =
     ([Mkdir ''sounds'', Fetch ''hello'' ''Charon''], Inr ''No audio data was returned.'')"
proof -
  let ?env = "example_env (example_result [])"
  have h1: "mkdir ?env ''sounds'' = None"
    and h2: "fetch ?env ''hello'' (case None of None \<Rightarrow> ''Charon'' | Some v \<Rightarrow> v) =
       Inr (Inr (example_result []))"
    by (simp_all add: example_env_simps)
  have h3: "falsy (Option.bind (Option.bind (first_part (example_result [])) inlineData) mimeType)"
    unfolding example_result_simps by (simp add: falsy_def)
  have run: "generate_and_save_audio ?env ''hello'' None =
     ([Mkdir ''sounds'', Fetch ''hello'' ''Charon''], Inr ''No audio data was returned.'')"
    using no_descriptor_no_audio [OF h1 h2 h3] by simp
  have "match_digits ''rate='' [] = None" "match_digits ''audio/L'' [] = None"
    by simp_all
  then have "\<nexists>pre d post. [] = pre @ ''rate='' @ d # post \<and> isDigit d"
    "\<nexists>pre d post. [] = pre @ ''audio/L'' @ d # post \<and> isDigit d"
    using match_digits_None_iff [of "''rate=''" "[]"]
      match_digits_None_iff [of "''audio/L''" "[]"]
    by blast+
  with run example_result_simps [of "[]"] show ?thesis by blast
qed

subsection \<open>The returned string\<close>

text \<open>
  C8, amended: for every successful synthesis the returned string is
  \<open>Audio successfully saved to: \<close> followed by the path of the written file, and that
  path is \<open>sounds/audio_output_\<close>, the identifier generated for the call, and \<open>.wav\<close>.
\<close>

theorem returned_string_names_written_file:
  assumes "mkdir env ''sounds'' = None"
    and "fetch env text (case voice_name of None \<Rightarrow> ''Charon'' | Some v \<Rightarrow> v) = Inr (Inr result)"
    and "Option.bind (Option.bind (first_part result) inlineData) data = Some audioData"
    and "audioData \<noteq> []"
    and "Option.bind (Option.bind (first_part result) inlineData) mimeType = Some descriptor"
    and "descriptor \<noteq> []"
    and "\<forall>buffer. writeFile env (''sounds/audio_output_'' @ uuidv4 env @ ''.wav'') buffer = None"
  shows "\<exists>wavBuffer.
     generate_and_save_audio env text voice_name =
       ([Mkdir ''sounds'', Fetch text (case voice_name of None \<Rightarrow> ''Charon'' | Some v \<Rightarrow> v),
         WriteFile (''sounds/audio_output_'' @ uuidv4 env @ ''.wav'') wavBuffer],
        Inr (''Audio successfully saved to: '' @ ''sounds/audio_output_'' @ uuidv4 env @ ''.wav''))"
  using generate_success [OF assms] by blast

theorem returned_string_names_written_file_witness:
  "mkdir (example_env (example_result ''audio/L16;codec=pcm;rate=24000'')) ''sounds'' = None \<and>
   fetch (example_env (example_result ''audio/L16;codec=pcm;rate=24000'')) ''hello''
     (case Some ''Puck'' of None \<Rightarrow> ''Charon'' | Some v \<Rightarrow> v) =
     Inr (Inr (example_result ''audio/L16;codec=pcm;rate=24000'')) \<and>
   Option.bind (Option.bind (first_part (example_result ''audio/L16;codec=pcm;rate=24000''))
     inlineData) data = Some ''AQID'' \<and>
   ''AQID'' \<noteq> [] \<and>
   Option.bind (Option.bind (first_part (example_result ''audio/L16;codec=pcm;rate=24000''))
     inlineData) mimeType = Some ''audio/L16;codec=pcm;rate=24000'' \<and>
   ''audio/L16;codec=pcm;rate=24000'' \<noteq> [] \<and>
   (\<forall>buffer. writeFile (example_env (example_result ''audio/L16;codec=pcm;rate=24000''))
      (''sounds/audio_output_''
         @ uuidv4 (example_env (example_result ''audio/L16;codec=pcm;rate=24000'')) @ ''.wav'')
      buffer = None) \<and>
   (\<exists>wavBuffer.
     generate_and_save_audio (example_env (example_result ''audio/L16;codec=pcm;rate=24000''))
       ''hello'' (Some ''Puck'') =
       ([Mkdir ''sounds'', Fetch ''hello'' ''Puck'',
         WriteFile ''sounds/audio_output_110ec58a-a0f2-4ac4-8393-c866d813b8d1.wav'' wavBuffer],
        Inr ''Audio successfully saved to: sounds/audio_output_110ec58a-a0f2-4ac4-8393-c866d813b8d1.wav''))"
proof -
  let ?d = "''audio/L16;codec=pcm;rate=24000''"
  let ?env = "example_env (example_result ?d)"
  have h1: "mkdir ?env ''sounds'' = None"
    and h2: "fetch ?env ''hello'' (case Some ''Puck'' of None \<Rightarrow> ''Charon'' | Some v \<Rightarrow> v) =
       Inr (Inr (example_result ?d))"
    and h7: "\<forall>buffer. writeFile ?env (''sounds/audio_output_'' @ uuidv4 ?env @ ''.wav'') buffer = None"
    by (simp_all add: example_env_simps)
  note h3 = example_result_simps(1) [of ?d]
  have h4: "''AQID'' \<noteq> []" by simp
  note h5 = example_result_simps(2) [of ?d]
  have h6: "?d \<noteq> []" by simp
  from returned_string_names_written_file [OF h1 h2 h3 h4 h5 h6 h7]
  have "\<exists>wavBuffer.
     generate_and_save_audio ?env ''hello'' (Some ''Puck'') =
       ([Mkdir ''sounds'', Fetch ''hello'' ''Puck'',
         WriteFile ''sounds/audio_output_110ec58a-a0f2-4ac4-8393-c866d813b8d1.wav'' wavBuffer],
        Inr ''Audio successfully saved to: sounds/audio_output_110ec58a-a0f2-4ac4-8393-c866d813b8d1.wav'')"
    by (simp add: example_env_simps)
  with h1 h2 h3 h4 h5 h6 h7 show ?thesis by blast
qed

lemma example_header:
  "wavHeader 24000 16 3 =
     Inr [0x52, 0x49, 0x46, 0x46, 0x27, 0, 0, 0, 0x57, 0x41, 0x56, 0x45,
          0x66, 0x6d, 0x74, 0x20, 0x10, 0, 0, 0, 1, 0, 1, 0,
          0xC0, 0x5D, 0, 0, 0x80, 0xBB, 0, 0, 2, 0, 0x10, 0,
          0x64, 0x61, 0x74, 0x61, 3, 0, 0, 0]"
  unfolding wavHeader_bytes ToUint32_of_nat ToUint16_of_nat chunkSize_of_nat
    ToUint16_blockAlign ToUint32_byteRate
  by (simp add: bytes_le_unfold)

text \<open>
  C8, as stated, says that the returned string is the path of the written file. The
  source returns a sentence that ends with the path.
\<close>

theorem returned_string_counterexample:
  "generate_and_save_audio (example_env (example_result ''audio/L16;codec=pcm;rate=24000''))
     ''hello'' None =
     ([Mkdir ''sounds'', Fetch ''hello'' ''Charon'',
       WriteFile ''sounds/audio_output_110ec58a-a0f2-4ac4-8393-c866d813b8d1.wav''
         [0x52, 0x49, 0x46, 0x46, 0x27, 0, 0, 0, 0x57, 0x41, 0x56, 0x45,
          0x66, 0x6d, 0x74, 0x20, 0x10, 0, 0, 0, 1, 0, 1, 0,
          0xC0, 0x5D, 0, 0, 0x80, 0xBB, 0, 0, 2, 0, 0x10, 0,
          0x64, 0x61, 0x74, 0x61, 3, 0, 0, 0, 1, 2, 3]],
      Inr ''Audio successfully saved to: sounds/audio_output_110ec58a-a0f2-4ac4-8393-c866d813b8d1.wav'') \<and>
   ''Audio successfully saved to: sounds/audio_output_110ec58a-a0f2-4ac4-8393-c866d813b8d1.wav''
     \<noteq> ''sounds/audio_output_110ec58a-a0f2-4ac4-8393-c866d813b8d1.wav''"
proof -
  let ?d = "''audio/L16;codec=pcm;rate=24000''"
  let ?env = "example_env (example_result ?d)"
  have h1: "mkdir ?env ''sounds'' = None"
    and h2: "fetch ?env ''hello'' (case None of None \<Rightarrow> ''Charon'' | Some v \<Rightarrow> v) =
       Inr (Inr (example_result ?d))"
    by (simp_all add: example_env_simps)
  note h3 = example_result_simps(1) [of ?d]
  have h4: "''AQID'' \<noteq> []" by simp
  note h5 = example_result_simps(2) [of ?d]
  have h6: "?d \<noteq> []" by simp
  have h7: "wavHeader (derive_sampleRate ?d) (derive_bitsPerSample ?d)
      (length (Buffer_from_base64 ?env ''AQID'')) =
     Inr [0x52, 0x49, 0x46, 0x46, 0x27, 0, 0, 0, 0x57, 0x41, 0x56, 0x45,
          0x66, 0x6d, 0x74, 0x20, 0x10, 0, 0, 0, 1, 0, 1, 0,
          0xC0, 0x5D, 0, 0, 0x80, 0xBB, 0, 0, 2, 0, 0x10, 0,
          0x64, 0x61, 0x74, 0x61, 3, 0, 0, 0]"
    using example_header by (simp add: derive_examples example_env_simps numeral_3_eq_3)
  from generate_with_payload [OF h1 h2 h3 h4 h5 h6 h7] show ?thesis
    by (simp add: example_env_simps)
qed

section \<open>Every failure becomes a string, except one\<close>

text \<open>
  C9 says that neither tool ever rejects, whatever the collaborators do, errors raised
  while the connection is released included. The speech tool never rejects
  (\<open>generate_and_save_audio_returns\<close>). The query tool awaits \<open>connection.end()\<close> in its
  \<open>finally\<close> block, outside the \<open>try\<close> and \<open>catch\<close> blocks: when that promise rejects,
  the string already chosen is discarded and the tool rejects with the error of
  \<open>connection.end()\<close>. It returns a string in every other case
  (\<open>run_mysql_query_rejects_iff\<close>).
\<close>

theorem release_error_rejects:
  "run_mysql_query (db_end_failing (Rows [[(''cardName'', ''f0'')]]) PROTOCOL_CONNECTION_LOST)
       ''SELECT cardName FROM cards'' =
     ([CreateConnection, Execute ''SELECT cardName FROM cards'', End],
      Inl PROTOCOL_CONNECTION_LOST)"
  by (simp add: run_mysql_query_def allowed_def db_end_failing_def trim_def isWhiteSpace_def
      toLowerCase_def toLowerCase_unit_def isUpperCase_def)

lemma run_mysql_query_returns:
  assumes "connection_end db = None \<or> createConnection db \<noteq> None"
  shows "\<exists>s. snd (run_mysql_query db query) = Inr s"
  using assms by (auto simp: run_mysql_query_def Let_def split: option.splits)

lemma run_mysql_query_rejects_iff:
  "(\<exists>e. snd (run_mysql_query db query) = Inl e) \<longleftrightarrow>
   allowed (trim query) \<and> createConnection db = None \<and> connection_end db \<noteq> None"
  by (auto simp: run_mysql_query_def Let_def split: option.splits)

lemma generate_and_save_audio_returns:
  "\<exists>s. snd (generate_and_save_audio env text voice_name) = Inr s"
  by (simp add: generate_and_save_audio_def Let_def split: prod.splits)

end
